theory Spec2Isabelle
  imports Main
begin

section \<open>Strings of the Go standard library\<close>

text \<open>
  Go strings are byte sequences; they are modelled as \<open>string\<close> (a list of 8-bit
  characters).  The functions below follow package \<open>strings\<close> for non-empty
  separators, the only ones the program uses.
\<close>

definition NUL :: char where
  "NUL = CHR 0x00"

definition LF :: char where
  "LF = CHR 0x0A"

definition CR :: char where
  "CR = CHR 0x0D"

fun HasPrefix :: "string \<Rightarrow> string \<Rightarrow> bool" where
  "HasPrefix s [] = True"
| "HasPrefix [] (p # ps) = False"
| "HasPrefix (c # cs) (p # ps) = (c = p \<and> HasPrefix cs ps)"

definition HasSuffix :: "string \<Rightarrow> string \<Rightarrow> bool" where
  "HasSuffix s suf = HasPrefix (rev s) (rev suf)"

definition TrimPrefix :: "string \<Rightarrow> string \<Rightarrow> string" where
  "TrimPrefix s p = (if HasPrefix s p then drop (length p) s else s)"

definition TrimSuffix :: "string \<Rightarrow> string \<Rightarrow> string" where
  "TrimSuffix s suf = (if HasSuffix s suf then take (length s - length suf) s else s)"

text \<open>\<open>Index s sep\<close>: the position of the first occurrence of \<open>sep\<close> in \<open>s\<close>.\<close>

fun Index :: "string \<Rightarrow> string \<Rightarrow> nat option" where
  "Index [] sep = (if sep = [] then Some 0 else None)"
| "Index (c # cs) sep =
     (if HasPrefix (c # cs) sep then Some 0
      else (case Index cs sep of None \<Rightarrow> None | Some i \<Rightarrow> Some (Suc i)))"

text \<open>
  \<open>genSplit\<close> with a positive count \<open>n\<close>: at most \<open>n\<close> pieces, the last one the
  unsplit remainder.  \<open>SplitN s sep 0\<close> is the empty slice.
\<close>

fun genSplit :: "nat \<Rightarrow> string \<Rightarrow> string \<Rightarrow> string list" where
  "genSplit 0 s sep = []"
| "genSplit (Suc 0) s sep = [s]"
| "genSplit (Suc (Suc n)) s sep =
     (case Index s sep of
        None \<Rightarrow> [s]
      | Some m \<Rightarrow> take m s # genSplit (Suc n) (drop (m + length sep) s) sep)"

definition SplitN :: "string \<Rightarrow> string \<Rightarrow> nat \<Rightarrow> string list" where
  "SplitN s sep n = genSplit n s sep"

text \<open>
  \<open>Split\<close> is \<open>genSplit\<close> with the count \<open>Count s sep + 1\<close>; a non-empty separator
  occurs at most \<open>length s\<close> times, so \<open>length s + 1\<close> pieces never cut the split short.
\<close>

definition Split :: "string \<Rightarrow> string \<Rightarrow> string list" where
  "Split s sep = genSplit (Suc (length s)) s sep"

section \<open>Regular expressions (package regexp)\<close>

text \<open>
  The three patterns of the program use literals, greedy one-or-more repetitions of a
  character class, concatenation, alternation and capturing groups.  \<open>rmatch\<close> lists the
  ways a pattern can match a prefix of the input (the remaining input and the captures),
  in the order a backtracking search tries them: that order is the leftmost-first
  preference of package \<open>regexp\<close>.
\<close>

datatype regex =
    Lit string
  | ClassPlus "char \<Rightarrow> bool"
  | Seq regex regex
  | Alt regex regex
  | Group nat regex

type_synonym captures = "(nat \<times> string) list"

fun rmatch :: "regex \<Rightarrow> string \<times> captures \<Rightarrow> (string \<times> captures) list" where
  "rmatch (Lit l) (s, cs) = (if HasPrefix s l then [(drop (length l) s, cs)] else [])"
| "rmatch (ClassPlus P) (s, cs) =
     map (\<lambda>k. (drop k s, cs)) (rev [1 ..< Suc (length (takeWhile P s))])"
| "rmatch (Seq a b) st = concat (map (rmatch b) (rmatch a st))"
| "rmatch (Alt a b) st = rmatch a st @ rmatch b st"
| "rmatch (Group n a) (s, cs) =
     map (\<lambda>(s', cs'). (s', (n, take (length s - length s') s) # cs')) (rmatch a (s, cs))"

fun capture :: "captures \<Rightarrow> nat \<Rightarrow> string" where
  "capture [] n = []"
| "capture ((k, v) # cs) n = (if k = n then v else capture cs n)"

text \<open>
  \<open>FindStringSubmatch\<close> for a pattern written \<open>^r$\<close> with \<open>ngroups\<close> capturing groups:
  the first way of matching \<open>r\<close> that consumes the whole input.  The result is the
  slice \<open>[whole match, group 1, ..., group ngroups]\<close>, or the empty slice (Go's nil)
  when there is no match.
\<close>

definition FindStringSubmatch :: "regex \<Rightarrow> nat \<Rightarrow> string \<Rightarrow> string list" where
  "FindStringSubmatch r ngroups s =
     (case filter (\<lambda>(rest, cs). rest = []) (rmatch r (s, [])) of
        [] \<Rightarrow> []
      | (rest, cs) # _ \<Rightarrow> s # map (capture cs) [1 ..< Suc ngroups])"

definition not_slash :: "char \<Rightarrow> bool" where
  "not_slash c = (c \<noteq> CHR ''/'')"

definition not_newline :: "char \<Rightarrow> bool" where
  "not_newline c = (c \<noteq> LF)"

text \<open>
  \<^verbatim>\<open>^/([^/]+)/([^/]+)/(?:archive|releases/download)/([^/]+)(?:\.(?:tar\.gz|zip)|/[^/]+)$\<close>
\<close>

definition githubRE :: regex where
  "githubRE =
     Seq (Lit ''/'') (Seq (Group 1 (ClassPlus not_slash))
    (Seq (Lit ''/'') (Seq (Group 2 (ClassPlus not_slash))
    (Seq (Lit ''/'') (Seq (Alt (Lit ''archive'') (Lit ''releases/download''))
    (Seq (Lit ''/'') (Seq (Group 3 (ClassPlus not_slash))
         (Alt (Seq (Lit ''.'') (Alt (Lit ''tar.gz'') (Lit ''zip'')))
              (Seq (Lit ''/'') (ClassPlus not_slash))))))))))"

text \<open>\<^verbatim>\<open>^/([^/]+)/([^/]+)/(?:[^/]+)/(.+)$\<close>\<close>

definition githubCodeloadRE :: regex where
  "githubCodeloadRE =
     Seq (Lit ''/'') (Seq (Group 1 (ClassPlus not_slash))
    (Seq (Lit ''/'') (Seq (Group 2 (ClassPlus not_slash))
    (Seq (Lit ''/'') (Seq (ClassPlus not_slash)
    (Seq (Lit ''/'') (Group 3 (ClassPlus not_newline))))))))"

section \<open>URLs (package net/url)\<close>

text \<open>
  The program reads the fields \<open>Host\<close> and \<open>Path\<close> of a parsed URL.  \<open>url_Parse\<close>
  follows the source of \<open>url.Parse\<close>: the fragment is cut at the first \<open>#\<close>, control
  bytes are rejected, the scheme is the leading run of scheme characters before a
  colon, the query is cut at the first \<open>?\<close>, a rest that does not start with a slash is
  opaque after a scheme and must not have a colon in its first segment otherwise, an
  authority is what follows \<open>//\<close> up to the next slash, user information is what
  precedes the last \<open>@\<close> of the authority, and host, user information, path and
  fragment are percent-decoded, each with the checks of its kind.
\<close>

record URL =
  Scheme :: string
  Opaque :: string
  User :: "(string \<times> string option) option"
  Host :: string
  Path :: string
  RawQuery :: string
  Fragment :: string

text \<open>
  Go errors as values.  \<open>GitFailed args out err\<close> is the error \<open>runGit\<close> builds from the
  arguments, the combined output and the error of the subprocess; \<open>WrongFormat line\<close> is
  the error of \<open>parseChangelog\<close> for a line with too few fields; \<open>NumError\<close> is the
  error of \<open>strconv.ParseInt\<close>; \<open>ErrTooLong\<close> is the scanner's error for an oversized
  line; \<open>PathError\<close> is an error of package \<open>os\<close>; \<open>ExecError\<close> is the error of a template
  execution.
\<close>

datatype error =
    UrlError string
  | Errorf string
  | GitFailed "string list" string string
  | WrongFormat string
  | NumError string string
  | ErrTooLong
  | PathError string string
  | ExecError string

definition Cut :: "string \<Rightarrow> string \<Rightarrow> string \<times> string" where
  "Cut s sep =
     (case Index s sep of
        None \<Rightarrow> (s, [])
      | Some i \<Rightarrow> (take i s, drop (i + length sep) s))"

text \<open>The value of a byte; the character classes are ranges of byte values.\<close>

definition byte :: "char \<Rightarrow> nat" where
  "byte c = of_char c"

definition is_upper :: "char \<Rightarrow> bool" where
  "is_upper c = (65 \<le> byte c \<and> byte c \<le> 90)"

definition is_lower :: "char \<Rightarrow> bool" where
  "is_lower c = (97 \<le> byte c \<and> byte c \<le> 122)"

definition is_letter :: "char \<Rightarrow> bool" where
  "is_letter c = (is_lower c \<or> is_upper c)"

definition is_digit :: "char \<Rightarrow> bool" where
  "is_digit c = (48 \<le> byte c \<and> byte c \<le> 57)"

definition is_CTL :: "char \<Rightarrow> bool" where
  "is_CTL c = (byte c < 32 \<or> byte c = 127)"

definition ToLower :: "string \<Rightarrow> string" where
  "ToLower s = map (\<lambda>c. if is_upper c then char_of (byte c + 32) else c) s"

text \<open>
  \<open>getScheme\<close>: the scheme and the rest, or an error when the URL starts with a colon.
  The first argument is the text scanned so far, reversed.
\<close>

fun getScheme :: "string \<Rightarrow> string \<Rightarrow> string \<Rightarrow> error + (string \<times> string)" where
  "getScheme raw seen [] = Inr ([], raw)"
| "getScheme raw seen (c # cs) =
     (if is_letter c then getScheme raw (c # seen) cs
      else if is_digit c \<or> c = CHR ''+'' \<or> c = CHR ''-'' \<or> c = CHR ''.'' then
        (if seen = [] then Inr ([], raw) else getScheme raw (c # seen) cs)
      else if c = CHR '':'' then
        (if seen = [] then Inl (UrlError ''missing protocol scheme'') else Inr (rev seen, cs))
      else Inr ([], raw))"

definition validOptionalPort :: "string \<Rightarrow> bool" where
  "validOptionalPort port =
     (case port of [] \<Rightarrow> True | c # ds \<Rightarrow> c = CHR '':'' \<and> list_all is_digit ds)"

definition LastIndex :: "string \<Rightarrow> string \<Rightarrow> nat option" where
  "LastIndex s sep =
     (case Index (rev s) (rev sep) of
        None \<Rightarrow> None
      | Some i \<Rightarrow> Some (length s - i - length sep))"

definition ishex :: "char \<Rightarrow> bool" where
  "ishex c = (is_digit c \<or> (97 \<le> byte c \<and> byte c \<le> 102) \<or> (65 \<le> byte c \<and> byte c \<le> 70))"

definition unhex :: "char \<Rightarrow> nat" where
  "unhex c =
     (if is_digit c then byte c - 48
      else if 97 \<le> byte c \<and> byte c \<le> 102 then byte c - 97 + 10
      else if 65 \<le> byte c \<and> byte c \<le> 70 then byte c - 65 + 10
      else 0)"

text \<open>
  \<open>shouldEscape c encodeHost\<close>: letters, digits, the sub-delimiters a host may hold
  (with colon, brackets, angle brackets and the double quote) and the marks \<open>-_.~\<close> need
  no escape; every other byte does.
\<close>

definition shouldEscape_host :: "char \<Rightarrow> bool" where
  "shouldEscape_host c =
     (\<not> (is_letter c \<or> is_digit c
         \<or> c \<in> set (''!$&()*+,;=:[]<>'' @ [CHR 0x27, CHR 0x22])
         \<or> c \<in> set ''-_.~''))"

datatype encoding = encodePath | encodeHost | encodeZone | encodeUserPassword | encodeFragment

text \<open>
  \<open>unescape\<close> first checks the string from the left: a percent sign needs two
  hexadecimal digits behind it; in a host an escape may only stand for a byte from
  \<open>0x80\<close> on (or be \<open>%25\<close>), and an ASCII byte that would need an escape is an error.
  Then every escape is replaced by its byte.
\<close>

fun unescape_check :: "encoding \<Rightarrow> string \<Rightarrow> error option" where
  "unescape_check mode [] = None"
| "unescape_check mode (c # cs) =
     (if c = CHR ''%'' then
        (case cs of
           a # b # rest \<Rightarrow>
             if \<not> ishex a \<or> \<not> ishex b then Some (UrlError (''invalid URL escape '' @ [c, a, b]))
             else if mode = encodeHost \<and> unhex a < 8 \<and> [c, a, b] \<noteq> ''%25'' then
               Some (UrlError (''invalid URL escape '' @ [c, a, b]))
             else if mode = encodeZone \<and> [c, a, b] \<noteq> ''%25''
                     \<and> char_of (16 * unhex a + unhex b) \<noteq> CHR '' ''
                     \<and> shouldEscape_host (char_of (16 * unhex a + unhex b)) then
               Some (UrlError (''invalid URL escape '' @ [c, a, b]))
             else unescape_check mode rest
         | _ \<Rightarrow> Some (UrlError (''invalid URL escape '' @ c # cs)))
      else if (mode = encodeHost \<or> mode = encodeZone) \<and> byte c < 128 \<and> shouldEscape_host c then
        Some (UrlError (''invalid character in host name '' @ [c]))
      else unescape_check mode cs)"

fun unescape_bytes :: "string \<Rightarrow> string" where
  "unescape_bytes [] = []"
| "unescape_bytes (c # cs) =
     (if c = CHR ''%'' then
        (case cs of
           a # b # rest \<Rightarrow> char_of (16 * unhex a + unhex b) # unescape_bytes rest
         | _ \<Rightarrow> c # unescape_bytes cs)
      else c # unescape_bytes cs)"

definition unescape :: "string \<Rightarrow> encoding \<Rightarrow> error + string" where
  "unescape s mode =
     (case unescape_check mode s of
        Some err \<Rightarrow> Inl err
      | None \<Rightarrow> Inr (unescape_bytes s))"

text \<open>
  \<open>parseHost\<close>: a host in brackets is an IP literal, with an optional port behind the
  last bracket and an optional zone from \<open>%25\<close> on; any other host may end in a colon
  and a port.
\<close>

definition parseHost :: "string \<Rightarrow> error + string" where
  "parseHost host =
     (if HasPrefix host ''['' then
        (case LastIndex host '']'' of
           None \<Rightarrow> Inl (UrlError ''missing ] in host'')
         | Some i \<Rightarrow>
             if \<not> validOptionalPort (drop (Suc i) host) then
               Inl (UrlError ''invalid port after host'')
             else
               (case Index (take i host) ''%25'' of
                  None \<Rightarrow> unescape host encodeHost
                | Some zone \<Rightarrow>
                    (case unescape (take zone host) encodeHost of
                       Inl err \<Rightarrow> Inl err
                     | Inr host1 \<Rightarrow>
                         (case unescape (take (i - zone) (drop zone host)) encodeZone of
                            Inl err \<Rightarrow> Inl err
                          | Inr host2 \<Rightarrow>
                              (case unescape (drop i host) encodeHost of
                                 Inl err \<Rightarrow> Inl err
                               | Inr host3 \<Rightarrow> Inr (host1 @ host2 @ host3))))))
      else
        (case LastIndex host '':'' of
           None \<Rightarrow> unescape host encodeHost
         | Some i \<Rightarrow>
             if \<not> validOptionalPort (drop i host) then Inl (UrlError ''invalid port after host'')
             else unescape host encodeHost))"

definition validUserinfo :: "string \<Rightarrow> bool" where
  "validUserinfo s =
     list_all (\<lambda>c. is_letter c \<or> is_digit c
                    \<or> c \<in> set (''-._:~!$&()*+,;=%@'' @ [CHR 0x27])) s"

definition parseAuthority :: "string \<Rightarrow> error + ((string \<times> string option) option \<times> string)" where
  "parseAuthority authority =
     (case LastIndex authority ''@'' of
        None \<Rightarrow>
          (case parseHost authority of
             Inl err \<Rightarrow> Inl err
           | Inr host \<Rightarrow> Inr (None, host))
      | Some i \<Rightarrow>
          (case parseHost (drop (Suc i) authority) of
             Inl err \<Rightarrow> Inl err
           | Inr host \<Rightarrow>
               let userinfo = take i authority in
               if \<not> validUserinfo userinfo then Inl (UrlError ''net/url: invalid userinfo'')
               else if Index userinfo '':'' = None then
                 (case unescape userinfo encodeUserPassword of
                    Inl err \<Rightarrow> Inl err
                  | Inr username \<Rightarrow> Inr (Some (username, None), host))
               else
                 (case unescape (fst (Cut userinfo '':'')) encodeUserPassword of
                    Inl err \<Rightarrow> Inl err
                  | Inr username \<Rightarrow>
                      (case unescape (snd (Cut userinfo '':'')) encodeUserPassword of
                         Inl err \<Rightarrow> Inl err
                       | Inr password \<Rightarrow> Inr (Some (username, Some password), host)))))"

text \<open>The function \<open>parse\<close>, called for the URL without its fragment.\<close>

definition url_parse :: "string \<Rightarrow> error + URL" where
  "url_parse rawURL =
     (if list_ex is_CTL rawURL then Inl (UrlError ''net/url: invalid control character in URL'')
      else
        (case getScheme rawURL [] rawURL of
           Inl err \<Rightarrow> Inl err
         | Inr (scheme, rest0) \<Rightarrow>
             let (rest, query) = Cut rest0 ''?'';
                 url0 = \<lparr>Scheme = ToLower scheme, Opaque = [], User = None, Host = [], Path = [],
                         RawQuery = query, Fragment = []\<rparr>
             in
             if \<not> HasPrefix rest ''/'' \<and> scheme \<noteq> [] then Inr (url0\<lparr>Opaque := rest\<rparr>)
             else if \<not> HasPrefix rest ''/'' \<and> Index (fst (Cut rest ''/'')) '':'' \<noteq> None then
               Inl (UrlError ''first path segment in URL cannot contain colon'')
             else if (scheme \<noteq> [] \<or> \<not> HasPrefix rest ''///'') \<and> HasPrefix rest ''//'' then
               (let auth0 = drop 2 rest;
                    (authority, path) =
                      (case Index auth0 ''/'' of
                         None \<Rightarrow> (auth0, [])
                       | Some i \<Rightarrow> (take i auth0, drop i auth0))
                in case parseAuthority authority of
                     Inl err \<Rightarrow> Inl err
                   | Inr (user, host) \<Rightarrow>
                       (case unescape path encodePath of
                          Inl err \<Rightarrow> Inl err
                        | Inr p \<Rightarrow> Inr (url0\<lparr>User := user, Host := host, Path := p\<rparr>)))
             else
               (case unescape rest encodePath of
                  Inl err \<Rightarrow> Inl err
                | Inr p \<Rightarrow> Inr (url0\<lparr>Path := p\<rparr>))))"

definition url_Parse :: "string \<Rightarrow> error + URL" where
  "url_Parse rawURL =
     (let (u, frag) = Cut rawURL ''#'' in
      case url_parse u of
        Inl err \<Rightarrow> Inl err
      | Inr url \<Rightarrow>
          if frag = [] then Inr url
          else
            (case unescape frag encodeFragment of
               Inl err \<Rightarrow> Inl err
             | Inr f \<Rightarrow> Inr (url\<lparr>Fragment := f\<rparr>)))"


section \<open>Parsing the commit log (tracker.go)\<close>

record Commit =
  Hash :: string
  Tags :: "string list"
  Date :: int
  Title :: string

text \<open>
  \<open>strconv.ParseInt s 10 64\<close>: an optional sign, then \<open>ParseUint\<close> on the rest.
  \<open>ParseUint\<close> reads the bytes from the left: a byte that is no decimal digit is a
  syntax error, a value beyond 64 bits is a range error, whichever comes first; the
  empty string is a syntax error.  \<open>ParseInt\<close> then wants the value within the signed
  64-bit range.
\<close>

definition digit_val :: "char \<Rightarrow> int" where
  "digit_val c = int (byte c) - 48"

definition decimal :: "string \<Rightarrow> int" where
  "decimal ds = foldl (\<lambda>a c. 10 * a + digit_val c) 0 ds"

fun ParseUint_loop :: "string \<Rightarrow> int \<Rightarrow> string \<Rightarrow> error + int" where
  "ParseUint_loop s0 n [] = Inr n"
| "ParseUint_loop s0 n (c # cs) =
     (if \<not> is_digit c then Inl (NumError s0 ''invalid syntax'')
      else if 2 ^ 64 \<le> 10 * n + digit_val c then Inl (NumError s0 ''value out of range'')
      else ParseUint_loop s0 (10 * n + digit_val c) cs)"

definition ParseInt :: "string \<Rightarrow> error + int" where
  "ParseInt s =
     (case s of
        [] \<Rightarrow> Inl (NumError s ''invalid syntax'')
      | c # cs \<Rightarrow>
          let neg = (c = CHR ''-'');
              ds = (if c = CHR ''+'' \<or> c = CHR ''-'' then cs else s)
          in if ds = [] then Inl (NumError s ''invalid syntax'')
             else
               (case ParseUint_loop s 0 ds of
                  Inl err \<Rightarrow> Inl err
                | Inr un \<Rightarrow>
                    if \<not> neg \<and> 2 ^ 63 \<le> un then Inl (NumError s ''value out of range'')
                    else if neg \<and> 2 ^ 63 < un then Inl (NumError s ''value out of range'')
                    else Inr (if neg then - un else un)))"

text \<open>
  \<open>bufio.Scanner\<close> with the default split function \<open>ScanLines\<close>: the input is cut at
  every line feed, a last line without line feed counts when it is not empty, and one
  trailing carriage return is dropped from each line.  A line that does not fit the
  buffer of \<open>MaxScanTokenSize\<close> bytes stops the scan with \<open>ErrTooLong\<close>.
\<close>

definition MaxScanTokenSize :: int where
  "MaxScanTokenSize = 64 * 1024"

fun scan_lines :: "string \<Rightarrow> string \<Rightarrow> string list" where
  "scan_lines acc [] = (if acc = [] then [] else [rev acc])"
| "scan_lines acc (c # cs) =
     (if c = LF then rev acc # scan_lines [] cs else scan_lines (c # acc) cs)"

definition dropCR :: "string \<Rightarrow> string" where
  "dropCR tok = (if tok \<noteq> [] \<and> last tok = CR then butlast tok else tok)"

text \<open>
  The loop of \<open>parseChangelog\<close> over the scanned lines, with the slice \<open>cs\<close> of the
  commits parsed so far.  Every error path returns the error alone.
\<close>

definition decode_tags :: "string \<Rightarrow> string list" where
  "decode_tags field =
     (if field \<noteq> [] then map (\<lambda>t. TrimPrefix t ''tag: '') (Split field '', '') else [])"

fun parse_loop :: "string list \<Rightarrow> Commit list \<Rightarrow> error + Commit list" where
  "parse_loop [] cs = Inr cs"
| "parse_loop (tok # toks) cs =
     (if MaxScanTokenSize \<le> int (length tok) then Inl ErrTooLong
      else
        let line = dropCR tok;
            parts = SplitN line [NUL] 4
        in if length parts \<noteq> 4 then Inl (WrongFormat line)
           else
             (case ParseInt (parts ! 2) of
                Inl err \<Rightarrow> Inl err
              | Inr ts \<Rightarrow>
                  parse_loop toks
                    (cs @ [\<lparr>Hash = parts ! 0, Tags = decode_tags (parts ! 1), Date = ts,
                            Title = parts ! 3\<rparr>])))"

definition parseChangelog :: "string \<Rightarrow> error + Commit list" where
  "parseChangelog rd = parse_loop (scan_lines [] rd) []"

text \<open>
  A well-formed record \<open>hash NUL tags NUL epoch NUL title\<close>, given by its four fields:
  hash and tags contain no NUL, no field contains a line feed, the epoch is a string
  of decimal digits with a value below \<open>2^63\<close>, the record does not end with a carriage
  return, and it fits the buffer of the scanner.
\<close>

definition well_formed :: "string \<times> string \<times> string \<times> string \<Rightarrow> bool" where
  "well_formed rec =
     (case rec of (h, t, e, title) \<Rightarrow>
        NUL \<notin> set h \<and> LF \<notin> set h \<and> NUL \<notin> set t \<and> LF \<notin> set t
        \<and> e \<noteq> [] \<and> list_all is_digit e \<and> decimal e < 2 ^ 63
        \<and> LF \<notin> set title \<and> last (NUL # title) \<noteq> CR
        \<and> int (length (h @ NUL # t @ NUL # e @ NUL # title)) < MaxScanTokenSize)"

section \<open>Cache directories (tracker.go)\<close>

text \<open>
  \<open>pathUnsafeRE\<close> is \<^verbatim>\<open>[^\w]+\<close>; \<^verbatim>\<open>\w\<close> is the class \<^verbatim>\<open>[0-9A-Za-z_]\<close>.  No byte from
  \<open>0x80\<close> on is a word character, as no rune beyond ASCII is one: a run of such bytes
  and the run of the runes they encode are replaced alike.
\<close>

definition is_word :: "char \<Rightarrow> bool" where
  "is_word c = (is_digit c \<or> is_letter c \<or> c = CHR ''_'')"

definition non_word :: "char \<Rightarrow> bool" where
  "non_word c = (\<not> is_word c)"

definition pathUnsafeRE :: regex where
  "pathUnsafeRE = ClassPlus non_word"

text \<open>
  \<open>ReplaceAllString\<close>: scanning from the left, the first match that starts at the
  current position is replaced and the scan goes on behind it; where nothing matches,
  the character is copied.  The patterns of the program match no empty string, so a
  match always consumes input.
\<close>

function ReplaceAllString :: "regex \<Rightarrow> string \<Rightarrow> string \<Rightarrow> string" where
  "ReplaceAllString re [] repl = []"
| "ReplaceAllString re (c # cs) repl =
     (case rmatch re (c # cs, []) of
        [] \<Rightarrow> c # ReplaceAllString re cs repl
      | (rest, caps) # others \<Rightarrow>
          if length rest \<le> length cs then repl @ ReplaceAllString re rest repl
          else c # ReplaceAllString re cs repl)"
  by pat_completeness auto
termination
  by (relation "measure (\<lambda>(re, s, repl). length s)") auto

text \<open>
  The sanitisation in the words of the specification: every run of non-word
  characters becomes a single filler character.
\<close>

function collapse_runs :: "(char \<Rightarrow> bool) \<Rightarrow> char \<Rightarrow> string \<Rightarrow> string" where
  "collapse_runs P filler [] = []"
| "collapse_runs P filler (c # cs) =
     (if P c then filler # collapse_runs P filler (dropWhile P cs)
      else c # collapse_runs P filler cs)"
  by pat_completeness auto
termination
  by (relation "measure (\<lambda>(P, filler, s). length s)")
     (auto simp: length_dropWhile_le less_Suc_eq_le)

text \<open>
  \<open>filepath.Join\<close> on a Unix system: the elements from the first non-empty one on,
  joined by slashes, then \<open>Clean\<close>: empty and \<open>.\<close> elements go, a \<open>..\<close> element removes
  the element before it (or itself at the root), and the empty result is \<open>.\<close>.
\<close>

fun clean_elems :: "bool \<Rightarrow> string list \<Rightarrow> string list \<Rightarrow> string list" where
  "clean_elems rooted out [] = rev out"
| "clean_elems rooted out (e # es) =
     (if e = [] \<or> e = ''.'' then clean_elems rooted out es
      else if e = ''..'' then
        (case out of
           [] \<Rightarrow> if rooted then clean_elems rooted out es else clean_elems rooted [e] es
         | p # ps \<Rightarrow>
             if p = ''..'' then clean_elems rooted (e # out) es
             else clean_elems rooted ps es)
      else clean_elems rooted (e # out) es)"

fun Join :: "string list \<Rightarrow> string \<Rightarrow> string" where
  "Join [] sep = []"
| "Join [e] sep = e"
| "Join (e # es) sep = e @ sep @ Join es sep"

definition Clean :: "string \<Rightarrow> string" where
  "Clean path =
     (if path = [] then ''.''
      else
        let rooted = (hd path = CHR ''/'');
            body = Join (clean_elems rooted [] (Split path ''/'')) ''/''
        in if rooted then CHR ''/'' # body else if body = [] then ''.'' else body)"

definition filepath_Join :: "string list \<Rightarrow> string" where
  "filepath_Join elems =
     (case dropWhile (\<lambda>e. e = []) elems of
        [] \<Rightarrow> []
      | es \<Rightarrow> Clean (Join es ''/''))"

text \<open>Lines 103 to 105 of \<open>ensureCacheDir\<close>: the cache directory of a parsed URL.\<close>

definition cache_path :: "string \<Rightarrow> URL \<Rightarrow> string" where
  "cache_path cacheDir u =
     (let hostName = ReplaceAllString pathUnsafeRE (Host u) ''_'';
          repoName = ReplaceAllString pathUnsafeRE
                       (TrimSuffix (TrimPrefix (Path u) ''/'') ''.git'') ''_''
      in filepath_Join [cacheDir, hostName, repoName])"

section \<open>The environment: file system and git\<close>

text \<open>
  The program works on the file system and runs the external tool \<open>git\<close>.  Both are
  modelled as an explicit state \<open>world\<close>.  A directory holds regular files and, when it
  is a clone, the origin URL and the history of the clone.  A history lists its commits
  in the order \<open>git log\<close> prints them (newest first), its branches and tags with the
  commit each points to, and the branch \<open>HEAD\<close> refers to.  \<open>trace\<close> records every run
  of git by the program: the working directory, the arguments and the error, if any.
\<close>

record commit_obj =
  c_hash :: string
  c_parents :: "string list"
  c_time :: int
  c_subject :: string

record repository =
  objects :: "commit_obj list"
  branches :: "(string \<times> string) list"
  tags :: "(string \<times> string) list"
  head :: string

record directory =
  files :: "(string \<times> string) list"
  dotgit :: "(string \<times> repository) option"

record world =
  TempDir :: string
  remotes :: "(string \<times> repository) list"
  fs :: "(string \<times> directory) list"
  trace :: "(string \<times> string list \<times> string option) list"

definition put :: "'k \<Rightarrow> 'v \<Rightarrow> ('k \<times> 'v) list \<Rightarrow> ('k \<times> 'v) list" where
  "put k v kvs = (k, v) # filter (\<lambda>(k', v'). k' \<noteq> k) kvs"

text \<open>\<open>filepath.Dir\<close> and \<open>filepath.Base\<close> of a clean path.\<close>

definition dirname :: "string \<Rightarrow> string" where
  "dirname p =
     (case Index (rev p) ''/'' of
        None \<Rightarrow> ''.''
      | Some i \<Rightarrow> if length p - Suc i = 0 then ''/'' else take (length p - Suc i) p)"

definition basename :: "string \<Rightarrow> string" where
  "basename p =
     (case Index (rev p) ''/'' of
        None \<Rightarrow> p
      | Some i \<Rightarrow> drop (length p - i) p)"

definition is_regular_file :: "world \<Rightarrow> string \<Rightarrow> bool" where
  "is_regular_file w p =
     (case map_of (fs w) (dirname p) of
        None \<Rightarrow> False
      | Some d \<Rightarrow> map_of (files d) (basename p) \<noteq> None)"

definition subdirs :: "world \<Rightarrow> string \<Rightarrow> string list" where
  "subdirs w p = filter (\<lambda>q. q \<noteq> p \<and> dirname q = p) (map fst (fs w))"

text \<open>The path and its ancestors, shortest first.\<close>

definition path_chain :: "string \<Rightarrow> string list" where
  "path_chain p =
     map (\<lambda>i. take i p) (filter (\<lambda>i. p ! i = CHR ''/'') [1 ..< length p]) @ [p]"

definition empty_directory :: directory where
  "empty_directory = \<lparr>files = [], dotgit = None\<rparr>"

fun mkdirs :: "string list \<Rightarrow> world \<Rightarrow> error + world" where
  "mkdirs [] w = Inr w"
| "mkdirs (q # qs) w =
     (if is_regular_file w q then Inl (PathError q ''not a directory'')
      else if map_of (fs w) q \<noteq> None then mkdirs qs w
      else mkdirs qs (w\<lparr>fs := put q empty_directory (fs w)\<rparr>))"

text \<open>
  \<open>os.MkdirAll\<close>: nothing to do when the directory exists; otherwise the missing
  directories of the chain are made, and a regular file in the way is an error.
\<close>

definition MkdirAll :: "world \<Rightarrow> string \<Rightarrow> error + world" where
  "MkdirAll w p = (if map_of (fs w) p \<noteq> None then Inr w else mkdirs (path_chain p) w)"

text \<open>
  \<open>os.Create\<close>: the file is created or truncated in an existing directory.
\<close>

definition Create :: "world \<Rightarrow> string \<Rightarrow> error + world" where
  "Create w p =
     (if map_of (fs w) p \<noteq> None then Inl (PathError p ''is a directory'')
      else
        (case map_of (fs w) (dirname p) of
           None \<Rightarrow> Inl (PathError p ''no such file or directory'')
         | Some d \<Rightarrow>
             Inr (w\<lparr>fs := put (dirname p) (d\<lparr>files := put (basename p) [] (files d)\<rparr>) (fs w)\<rparr>)))"

definition write_file :: "world \<Rightarrow> string \<Rightarrow> string \<Rightarrow> world" where
  "write_file w p content =
     (case map_of (fs w) (dirname p) of
        None \<Rightarrow> w
      | Some d \<Rightarrow>
          w\<lparr>fs := put (dirname p) (d\<lparr>files := put (basename p) content (files d)\<rparr>) (fs w)\<rparr>)"

subsection \<open>Histories\<close>

text \<open>
  The parent links of a history, as pairs of a commit and one of its parents.  A commit
  \<open>a\<close> is an ancestor of \<open>b\<close> when \<open>a\<close> is \<open>b\<close> or is reached from \<open>b\<close> over parent links;
  for \<open>git merge-base --is-ancestor\<close> a commit is an ancestor of itself.
\<close>

definition parent_links :: "repository \<Rightarrow> (string \<times> string) list" where
  "parent_links r = concat (map (\<lambda>c. map (\<lambda>p. (c_hash c, p)) (c_parents c)) (objects r))"

definition is_ancestor :: "repository \<Rightarrow> string \<Rightarrow> string \<Rightarrow> bool" where
  "is_ancestor r a b = (a = b \<or> (b, a) \<in> (set (parent_links r))\<^sup>+)"

text \<open>
  The references of a clone.  The history stored in a clone is the one of its remote:
  its \<open>branches\<close> are the branches of the remote, which the clone sees as
  \<open>refs/remotes/origin/...\<close>; its only local branch is the one \<open>HEAD\<close> refers to.
\<close>

definition refs_of :: "repository \<Rightarrow> (string \<times> string) list" where
  "refs_of r =
     (case map_of (branches r) (head r) of
        None \<Rightarrow> []
      | Some h \<Rightarrow> [(''HEAD'', h), (''refs/heads/'' @ head r, h), (''refs/remotes/origin/HEAD'', h)])
     @ map (\<lambda>(name, h). (''refs/tags/'' @ name, h)) (tags r)
     @ map (\<lambda>(name, h). (''refs/remotes/origin/'' @ name, h)) (branches r)"

text \<open>
  A name is looked up as it is, below \<open>refs/\<close>, as a tag, as a local branch, as a
  remote-tracking branch and as the \<open>HEAD\<close> of a remote, in this order.
\<close>

definition dwim_ref :: "repository \<Rightarrow> string \<Rightarrow> string option" where
  "dwim_ref r name =
     (case filter (\<lambda>k. map_of (refs_of r) k \<noteq> None)
             [name, ''refs/'' @ name, ''refs/tags/'' @ name, ''refs/heads/'' @ name,
              ''refs/remotes/'' @ name, ''refs/remotes/'' @ name @ ''/HEAD''] of
        [] \<Rightarrow> None
      | k # ks \<Rightarrow> map_of (refs_of r) k)"

text \<open>An abbreviated hash: four or more hexadecimal digits that begin one hash only.\<close>

definition short_hash :: "repository \<Rightarrow> string \<Rightarrow> string option" where
  "short_hash r name =
     (if 4 \<le> length name \<and> list_all ishex name then
        (case remdups (filter (\<lambda>h. HasPrefix h (ToLower name)) (map c_hash (objects r))) of
           [h] \<Rightarrow> Some h
         | _ \<Rightarrow> None)
      else None)"

definition rev_base :: "repository \<Rightarrow> string \<Rightarrow> string option" where
  "rev_base r name =
     (if name \<in> set (map c_hash (objects r)) then Some name
      else
        (case dwim_ref r name of
           Some h \<Rightarrow> Some h
         | None \<Rightarrow> short_hash r name))"

fun commit_parents :: "commit_obj list \<Rightarrow> string \<Rightarrow> string list" where
  "commit_parents [] h = []"
| "commit_parents (c # cs) h = (if c_hash c = h then c_parents c else commit_parents cs h)"

text \<open>\<open>h^n\<close> is the \<open>n\<close>-th parent of \<open>h\<close> (and \<open>h\<close> for \<open>n = 0\<close>); \<open>h~n\<close> follows \<open>n\<close> first parents.\<close>

definition nth_parent :: "repository \<Rightarrow> nat \<Rightarrow> string \<Rightarrow> string option" where
  "nth_parent r n h =
     (if n = 0 then Some h
      else if n \<le> length (commit_parents (objects r) h) then
        Some (commit_parents (objects r) h ! (n - 1))
      else None)"

fun nth_ancestor :: "repository \<Rightarrow> nat \<Rightarrow> string \<Rightarrow> string option" where
  "nth_ancestor r 0 h = Some h"
| "nth_ancestor r (Suc n) h =
     (case commit_parents (objects r) h of
        [] \<Rightarrow> None
      | p # ps \<Rightarrow> nth_ancestor r n p)"

text \<open>
  A trailing \<open>~\<close> or \<open>^\<close> with an optional number: the name before it, the sign and
  the number (1 when there is none).
\<close>

definition split_suffix :: "string \<Rightarrow> (string \<times> char \<times> nat) option" where
  "split_suffix name =
     (let ds = takeWhile is_digit (rev name) in
      case drop (length ds) (rev name) of
        [] \<Rightarrow> None
      | c # base \<Rightarrow>
          if c = CHR ''~'' \<or> c = CHR ''^'' then
            Some (rev base, c, if ds = [] then 1 else nat (decimal (rev ds)))
          else None)"

text \<open>
  Resolving a revision to a commit: a name with a suffix \<open>~n\<close> or \<open>^n\<close> resolves the
  name before the suffix first; a name without is the full hash of a commit, a
  reference, or an abbreviated hash, tried in this order.  The empty string names no
  commit.  The reflog forms (an at sign with braces), the peeling suffix (a caret with
  braces), the search \<open>:/text\<close> and the output of \<open>git describe\<close> are not modelled: such a
  name resolves to nothing here.
\<close>

fun rev_parse_suffix :: "nat \<Rightarrow> repository \<Rightarrow> string \<Rightarrow> string option" where
  "rev_parse_suffix 0 r name = rev_base r name"
| "rev_parse_suffix (Suc k) r name =
     (case split_suffix name of
        None \<Rightarrow> rev_base r name
      | Some (base, sign, n) \<Rightarrow>
          (case rev_parse_suffix k r base of
             None \<Rightarrow> None
           | Some h \<Rightarrow> if sign = CHR ''~'' then nth_ancestor r n h else nth_parent r n h))"

definition rev_parse :: "repository \<Rightarrow> string \<Rightarrow> string option" where
  "rev_parse r name = rev_parse_suffix (length name) r name"

text \<open>Decimal notation of a number, as \<^verbatim>\<open>%ct\<close> and the template action \<open>len\<close> print it.\<close>

definition digit_char :: "nat \<Rightarrow> char" where
  "digit_char d = char_of (48 + d)"

function show_dec :: "int \<Rightarrow> string" where
  "show_dec n =
     (if n < 10 then [digit_char (nat n)]
      else show_dec (n div 10) @ [digit_char (nat (n mod 10))])"
  by pat_completeness auto
termination
  by (relation "measure nat") auto

definition show_int :: "int \<Rightarrow> string" where
  "show_int i = (if i < 0 then CHR ''-'' # show_dec (- i) else show_dec i)"

text \<open>
  One record of \<^verbatim>\<open>git log --pretty=format:%H%x00%D%x00%ct%x00%s --decorate=short
  --decorate-refs=refs/tags\<close>: hash, the tags of the commit as \<open>tag: name\<close> separated by
  \<open>, \<close>, the commit time and the subject.
\<close>

definition decoration :: "repository \<Rightarrow> commit_obj \<Rightarrow> string" where
  "decoration r c =
     Join (map (\<lambda>(name, h). ''tag: '' @ name) (filter (\<lambda>(name, h). h = c_hash c) (tags r))) '', ''"

definition log_record :: "repository \<Rightarrow> commit_obj \<Rightarrow> string" where
  "log_record r c =
     c_hash c @ [NUL] @ decoration r c @ [NUL] @ show_int (c_time c) @ [NUL] @ c_subject c"

subsection \<open>The git commands the program runs\<close>

text \<open>
  Each command gives the new world, the combined output and the error of the
  subprocess (\<open>None\<close> for exit status 0).  A successful \<open>clone\<close> into an empty directory
  stores the remote history there; a failed one leaves the directory as it was.  A
  successful \<open>pull origin master\<close> needs a clone whose origin still exists and has a
  branch \<open>master\<close>, and brings the clone to the remote history.  \<open>merge-base
  --is-ancestor A B\<close> exits with status 0 when \<open>A\<close> is an ancestor of \<open>B\<close>, with status 1
  when it is not, and with status 128 when a revision names no commit.  \<open>log A..B\<close>
  prints the commits reachable from \<open>B\<close> and not from \<open>A\<close>, separated by line feeds.
\<close>

definition git_fail :: "world \<Rightarrow> string \<Rightarrow> string \<Rightarrow> world \<times> string \<times> string option" where
  "git_fail w out status = (w, out, Some (''exit status '' @ status))"

definition git_clone :: "world \<Rightarrow> string \<Rightarrow> directory \<Rightarrow> string \<Rightarrow> world \<times> string \<times> string option" where
  "git_clone w dir d url =
     (if files d \<noteq> [] \<or> dotgit d \<noteq> None \<or> subdirs w dir \<noteq> [] then
        git_fail w ''fatal: destination path already exists and is not an empty directory.'' ''128''
      else
        (case map_of (remotes w) url of
           None \<Rightarrow> git_fail w ''fatal: repository not found'' ''128''
         | Some r \<Rightarrow> (w\<lparr>fs := put dir (d\<lparr>dotgit := Some (url, r)\<rparr>) (fs w)\<rparr>, [], None)))"

definition git_pull :: "world \<Rightarrow> string \<Rightarrow> directory \<Rightarrow> string \<Rightarrow> string \<Rightarrow> world \<times> string \<times> string option" where
  "git_pull w dir d remote branch =
     (case dotgit d of
        None \<Rightarrow> git_fail w ''fatal: not a git repository'' ''128''
      | Some (origin, local) \<Rightarrow>
          if remote \<noteq> ''origin'' then git_fail w ''fatal: not a git repository'' ''1''
          else
            (case map_of (remotes w) origin of
               None \<Rightarrow> git_fail w ''fatal: repository not found'' ''1''
             | Some r \<Rightarrow>
                 if map_of (branches r) branch = None then
                   git_fail w ''fatal: could not find remote ref'' ''1''
                 else (w\<lparr>fs := put dir (d\<lparr>dotgit := Some (origin, r)\<rparr>) (fs w)\<rparr>,
                       ''Already up to date.'', None)))"

definition git_merge_base_is_ancestor ::
  "world \<Rightarrow> directory \<Rightarrow> string \<Rightarrow> string \<Rightarrow> world \<times> string \<times> string option" where
  "git_merge_base_is_ancestor w d a b =
     (case dotgit d of
        None \<Rightarrow> git_fail w ''fatal: not a git repository'' ''128''
      | Some (origin, r) \<Rightarrow>
          (case (rev_parse r a, rev_parse r b) of
             (Some ha, Some hb) \<Rightarrow> if is_ancestor r ha hb then (w, [], None) else git_fail w [] ''1''
           | _ \<Rightarrow> git_fail w ''fatal: Not a valid object name'' ''128''))"

definition git_log :: "world \<Rightarrow> directory \<Rightarrow> string \<Rightarrow> world \<times> string \<times> string option" where
  "git_log w d revs =
     (case dotgit d of
        None \<Rightarrow> git_fail w ''fatal: not a git repository'' ''128''
      | Some (origin, r) \<Rightarrow>
          (case Index revs ''..'' of
             None \<Rightarrow> git_fail w ''fatal: bad revision'' ''128''
           | Some i \<Rightarrow>
               let a = (if take i revs = [] then ''HEAD'' else take i revs);
                   b = (if drop (i + 2) revs = [] then ''HEAD'' else drop (i + 2) revs)
               in (case (rev_parse r a, rev_parse r b) of
                     (Some ha, Some hb) \<Rightarrow>
                       (w, Join (map (log_record r)
                                  (filter (\<lambda>c. is_ancestor r (c_hash c) hb \<and> \<not> is_ancestor r (c_hash c) ha)
                                     (objects r))) [LF], None)
                   | _ \<Rightarrow> git_fail w ''fatal: bad revision'' ''128'')))"

definition git_exec :: "world \<Rightarrow> string \<Rightarrow> string list \<Rightarrow> world \<times> string \<times> string option" where
  "git_exec w dir args =
     (case map_of (fs w) dir of
        None \<Rightarrow> (w, [], Some ''chdir: no such file or directory'')
      | Some d \<Rightarrow>
          if length args = 4 \<and> args ! 0 = ''clone'' \<and> args ! 2 = ''--quiet'' \<and> args ! 3 = ''.'' then
            git_clone w dir d (args ! 1)
          else if length args = 3 \<and> args ! 0 = ''pull'' then
            git_pull w dir d (args ! 1) (args ! 2)
          else if length args = 4 \<and> args ! 0 = ''merge-base'' \<and> args ! 1 = ''--is-ancestor'' then
            git_merge_base_is_ancestor w d (args ! 2) (args ! 3)
          else if length args = 5 \<and> args ! 0 = ''log'' then
            git_log w d (args ! 4)
          else git_fail w ''usage: git'' ''129'')"

section \<open>Mirrors and update detection (tracker.go)\<close>

record GitRepo =
  Revision :: string
  URL :: string
  Dir :: string

text \<open>
  Of the struct \<open>Changelog\<close>, the fields \<open>Repo\<close> and \<open>Log\<close> are the ones \<open>NewCommits\<close>
  fills and the template reads.
\<close>

record Changelog =
  Repo :: GitRepo
  Log :: "Commit list"

definition TagURL :: "Changelog \<Rightarrow> string \<Rightarrow> string" where
  "TagURL cl tag = URL (Repo cl) @ ''/releases/tag/'' @ tag"

definition CommitURL :: "Changelog \<Rightarrow> string \<Rightarrow> string" where
  "CommitURL cl hash = URL (Repo cl) @ ''/commit/'' @ hash"

text \<open>\<open>cacheDir\<close> is initialised to \<open>os.TempDir()\<close>.\<close>

definition cacheDir :: "world \<Rightarrow> string" where
  "cacheDir w = TempDir w"

definition ensureCacheDir :: "world \<Rightarrow> GitRepo \<Rightarrow> world \<times> (error + GitRepo)" where
  "ensureCacheDir w r =
     (case url_Parse (URL r) of
        Inl err \<Rightarrow> (w, Inl err)
      | Inr u \<Rightarrow>
          let dir = cache_path (cacheDir w) u
          in (case MkdirAll w dir of
                Inl err \<Rightarrow> (w, Inl err)
              | Inr w' \<Rightarrow> (w', Inr (r\<lparr>Dir := dir\<rparr>))))"

definition runGit :: "world \<Rightarrow> GitRepo \<Rightarrow> string list \<Rightarrow> world \<times> (error + string)" where
  "runGit w r args =
     (case git_exec w (Dir r) args of
        (w', out, err) \<Rightarrow>
          (w'\<lparr>trace := trace w' @ [(Dir r, args, err)]\<rparr>,
           (case err of
              Some e \<Rightarrow> Inl (GitFailed args out e)
            | None \<Rightarrow> Inr out)))"

text \<open>
  \<open>isDirEmpty\<close>: \<open>os.Open\<close> fails on a missing path, \<open>Readdir\<close> fails on a regular file
  and gives \<open>io.EOF\<close> on an empty directory.
\<close>

definition isDirEmpty :: "world \<Rightarrow> string \<Rightarrow> error + bool" where
  "isDirEmpty w name =
     (case map_of (fs w) name of
        None \<Rightarrow>
          Inl (PathError name
                (if is_regular_file w name then ''not a directory''
                 else ''no such file or directory''))
      | Some d \<Rightarrow> Inr (files d = [] \<and> dotgit d = None \<and> subdirs w name = []))"

definition updateCache :: "world \<Rightarrow> GitRepo \<Rightarrow> world \<times> error option" where
  "updateCache w r =
     (case isDirEmpty w (Dir r) of
        Inl err \<Rightarrow> (w, Some err)
      | Inr isEmpty \<Rightarrow>
          if isEmpty then
            (case runGit w r [''clone'', URL r, ''--quiet'', ''.''] of
               (w', Inl err) \<Rightarrow> (w', Some err)
             | (w', Inr out) \<Rightarrow> (w', None))
          else
            (case runGit w r [''pull'', ''origin'', ''master''] of
               (w', Inl err) \<Rightarrow> (w', Some err)
             | (w', Inr out) \<Rightarrow> (w', None)))"

definition NewGitRepo :: "world \<Rightarrow> string \<Rightarrow> string \<Rightarrow> world \<times> (error + GitRepo)" where
  "NewGitRepo w revision url =
     (case ensureCacheDir w \<lparr>Revision = revision, URL = url, Dir = []\<rparr> of
        (w1, Inl err) \<Rightarrow> (w1, Inl err)
      | (w1, Inr r) \<Rightarrow>
          (case updateCache w1 r of
             (w2, Some err) \<Rightarrow> (w2, Inl err)
           | (w2, None) \<Rightarrow> (w2, Inr r)))"

text \<open>
  \<open>CheckUpdate\<close> returns \<open>(false, err)\<close> when git fails and \<open>(true, nil)\<close> otherwise; the
  pair \<open>(false, err)\<close> is the value \<open>Inl err\<close>.
\<close>

definition CheckUpdate :: "world \<Rightarrow> GitRepo \<Rightarrow> string \<Rightarrow> string \<Rightarrow> world \<times> (error + bool)" where
  "CheckUpdate w r fromCommit toCommit =
     (case runGit w r [''merge-base'', ''--is-ancestor'', fromCommit, toCommit] of
        (w', Inl err) \<Rightarrow> (w', Inl err)
      | (w', Inr out) \<Rightarrow> (w', Inr True))"

definition CommitLog :: "world \<Rightarrow> GitRepo \<Rightarrow> string \<Rightarrow> string \<Rightarrow> world \<times> (error + Commit list)" where
  "CommitLog w r fromCommit toCommit =
     (case runGit w r [''log'', ''--pretty=format:%H%x00%D%x00%ct%x00%s'', ''--decorate=short'',
                       ''--decorate-refs=refs/tags'', fromCommit @ ''..'' @ toCommit] of
        (w', Inl err) \<Rightarrow> (w', Inl err)
      | (w', Inr output) \<Rightarrow>
          (case parseChangelog output of
             Inl err \<Rightarrow> (w', Inl err)
           | Inr cl \<Rightarrow> (w', Inr cl)))"

text \<open>
  \<open>NewCommits\<close> returns a pointer and an error: \<open>(nil, err)\<close> is \<open>Inl err\<close>, \<open>(nil, nil)\<close>
  is \<open>Inr None\<close> and a changelog is \<open>Inr (Some cl)\<close>.
\<close>

definition NewCommits :: "world \<Rightarrow> string \<Rightarrow> string \<Rightarrow> world \<times> (error + Changelog option)" where
  "NewCommits w revision url =
     (case NewGitRepo w revision url of
        (w1, Inl err) \<Rightarrow> (w1, Inl err)
      | (w1, Inr r) \<Rightarrow>
          (case CheckUpdate w1 r (Revision r) ''HEAD'' of
             (w2, Inl err) \<Rightarrow> (w2, Inl err)
           | (w2, Inr p) \<Rightarrow>
               if \<not> p then (w2, Inr None)
               else
                 (case CommitLog w2 r (Revision r) ''HEAD'' of
                    (w3, Inl err) \<Rightarrow> (w3, Inl err)
                  | (w3, Inr commits) \<Rightarrow> (w3, Inr (Some \<lparr>Repo = r, Log = commits\<rparr>)))))"

section \<open>Reports (reporter.go)\<close>

text \<open>
  The template helper \<open>shortHash\<close> is the slice expression \<open>hash[:6]\<close>; on a string of
  fewer than six bytes the slice expression panics.
\<close>

datatype panic = RuntimePanic string

definition shortHash :: "string \<Rightarrow> panic + string" where
  "shortHash hash =
     (if length hash < 6 then Inl (RuntimePanic ''slice bounds out of range'')
      else Inr (take 6 hash))"

text \<open>
  Executing \<open>textReportTmpl\<close> writes the text piece by piece and stops at the first
  failing action; what was written before stays written.  The result of an execution is
  the text written and how it ended.
\<close>

datatype exec_end = Done | Failed error | Panicked panic

definition label_emoji :: string where
  "label_emoji = [CHR 0xF0, CHR 0x9F, CHR 0x8F, CHR 0xB7]"

definition render_tags :: "Changelog \<Rightarrow> string list \<Rightarrow> string" where
  "render_tags cl ts =
     (if ts = [] then []
      else '' ('' @ label_emoji @ '' '' @
           concat (map (\<lambda>t. '' ['' @ t @ '']('' @ TagURL cl t @ '')'') ts) @ '')'')"

definition render_commit :: "Changelog \<Rightarrow> Commit \<Rightarrow> string \<times> exec_end" where
  "render_commit cl c =
     (case shortHash (Hash c) of
        Inl p \<Rightarrow> ([LF] @ ''- [`'', Panicked p)
      | Inr short \<Rightarrow>
          ([LF] @ ''- [`'' @ short @ ''`]('' @ CommitURL cl (Hash c) @ '') '' @ Title c @
           render_tags cl (Tags c), Done))"

fun render_log :: "Changelog \<Rightarrow> Commit list \<Rightarrow> string \<times> exec_end" where
  "render_log cl [] = ([], Done)"
| "render_log cl (c # cs) =
     (case render_commit cl c of
        (out, Done) \<Rightarrow> (case render_log cl cs of (out', e) \<Rightarrow> (out @ out', e))
      | (out, e) \<Rightarrow> (out, e))"

text \<open>
  What \<open>Execute\<close> does with a panic of a function it calls is the business of package
  \<open>text/template\<close> and has changed between Go releases: before Go 1.12 a run-time
  panic of the called function leaves \<open>Execute\<close> as a panic, since Go 1.12 \<open>Execute\<close>
  returns it as an error.  The flag \<open>recovers\<close> says which library the program is built
  with.
\<close>

definition TextReport :: "bool \<Rightarrow> Changelog \<Rightarrow> string \<times> exec_end" where
  "TextReport recovers cl =
     (let header = ''# '' @ URL (Repo cl) @ '' '' @ [LF] @
                   ''<details><summary>There are '' @ show_dec (int (length (Log cl))) @
                   '' new commits.</summary><p>'' @ [LF]
      in case render_log cl (Log cl) of
           (body, Done) \<Rightarrow> (header @ body @ [LF] @ ''</p></details>'' @ [LF], Done)
         | (body, Failed err) \<Rightarrow> (header @ body, Failed err)
         | (body, Panicked (RuntimePanic msg)) \<Rightarrow>
             (header @ body,
              if recovers then Failed (ExecError (''error calling shortHash: '' @ msg))
              else Panicked (RuntimePanic msg)))"

section \<open>Resolving archive rules to repositories (repo.go)\<close>

text \<open>
  The struct \<open>gitPackageInfo\<close> has the fields \<open>Revision\<close> and \<open>URL\<close>; they carry the
  prefix \<open>pkg\<close> here to keep them apart from the fields of \<open>GitRepo\<close>.
\<close>

record gitPackageInfo =
  pkgRevision :: string
  pkgURL :: string

record httpPackageInfo =
  URLs :: "string list"
  Name :: string

text \<open>
  The two entries of \<open>httpGitMapper\<close>.  Both call \<open>githubRE.FindStringSubmatch\<close>; the
  source declares \<open>githubCodeloadRE\<close> next to \<open>githubRE\<close> and never uses it.
\<close>

definition github_com_mapper :: "URL \<Rightarrow> error + gitPackageInfo" where
  "github_com_mapper u =
     (let m = FindStringSubmatch githubRE 3 (Path u) in
      if length m = 0 then Inl (Errorf ''unsupported url'')
      else Inr \<lparr>pkgRevision = m ! 3,
                pkgURL = ''https://github.com/'' @ m ! 1 @ ''/'' @ m ! 2\<rparr>)"

definition codeload_github_com_mapper :: "URL \<Rightarrow> error + gitPackageInfo" where
  "codeload_github_com_mapper u =
     (let m = FindStringSubmatch githubRE 3 (Path u) in
      if length m = 0 then Inl (Errorf ''unsupported url'')
      else Inr \<lparr>pkgRevision = m ! 3,
                pkgURL = ''https://github.com/'' @ m ! 1 @ ''/'' @ m ! 2\<rparr>)"

definition httpGitMapper :: "string \<Rightarrow> (URL \<Rightarrow> error + gitPackageInfo) option" where
  "httpGitMapper host =
     (if host = ''github.com'' then Some github_com_mapper
      else if host = ''codeload.github.com'' then Some codeload_github_com_mapper
      else None)"

text \<open>
  \<open>HTTPToGit\<close>: the first URL that parses, has a registered host and matches that host's
  pattern decides; the loop skips every other URL.
\<close>

fun HTTPToGit_loop :: "string list \<Rightarrow> error + gitPackageInfo" where
  "HTTPToGit_loop [] = Inl (Errorf ''no valid url'')"
| "HTTPToGit_loop (e # es) =
     (case url_Parse e of
        Inl err \<Rightarrow> HTTPToGit_loop es
      | Inr u \<Rightarrow>
          (case httpGitMapper (Host u) of
             None \<Rightarrow> HTTPToGit_loop es
           | Some m \<Rightarrow>
               (case m u of
                  Inl err \<Rightarrow> HTTPToGit_loop es
                | Inr g \<Rightarrow> Inr g)))"

definition HTTPToGit :: "httpPackageInfo \<Rightarrow> error + gitPackageInfo" where
  "HTTPToGit h = HTTPToGit_loop (URLs h)"

text \<open>
  \<open>writeToFile\<close> reads \<open>cl.Repo.Dir\<close> first: on the nil pointer that is a run-time
  panic.  A call either returns (with an error or without) or panics.
\<close>

datatype outcome = Returned "error option" | Panic panic

definition writeToFile :: "bool \<Rightarrow> world \<Rightarrow> Changelog option \<Rightarrow> world \<times> outcome" where
  "writeToFile recovers w clp =
     (case clp of
        None \<Rightarrow> (w, Panic (RuntimePanic ''invalid memory address or nil pointer dereference''))
      | Some cl \<Rightarrow>
          let filedir = filepath_Join [Dir (Repo cl), ''report.md'']
          in (case Create w filedir of
                Inl err \<Rightarrow> (w, Returned (Some err))
              | Inr w1 \<Rightarrow>
                  (case TextReport recovers cl of
                     (text, Done) \<Rightarrow> (write_file w1 filedir text, Returned None)
                   | (text, Failed err) \<Rightarrow> (write_file w1 filedir text, Returned (Some err))
                   | (text, Panicked p) \<Rightarrow> (write_file w1 filedir text, Panic p))))"

text \<open>
  The loop of a worker of \<open>main\<close> over the repositories it receives.  An error of
  \<open>NewCommits\<close> or \<open>writeToFile\<close> is logged and the loop goes on; a panic ends the
  process.
\<close>

datatype run_end = Finished | Crashed panic

fun worker :: "bool \<Rightarrow> world \<Rightarrow> gitPackageInfo list \<Rightarrow> world \<times> run_end" where
  "worker recovers w [] = (w, Finished)"
| "worker recovers w (gr # grs) =
     (case NewCommits w (pkgRevision gr) (pkgURL gr) of
        (w1, Inl err) \<Rightarrow> worker recovers w1 grs
      | (w1, Inr cl) \<Rightarrow>
          (case writeToFile recovers w1 cl of
             (w2, Panic p) \<Rightarrow> (w2, Crashed p)
           | (w2, Returned err) \<Rightarrow> worker recovers w2 grs))"

text \<open>The content of a regular file, if it exists.\<close>

definition read_file :: "world \<Rightarrow> string \<Rightarrow> string option" where
  "read_file w p =
     (case map_of (fs w) (dirname p) of
        None \<Rightarrow> None
      | Some d \<Rightarrow> map_of (files d) (basename p))"

text \<open>
  The number of successful runs of \<open>git clone\<close> in a trace.
\<close>

definition clone_runs :: "(string \<times> string list \<times> string option) list \<Rightarrow> nat" where
  "clone_runs t = length (filter (\<lambda>(dir, args, err). err = None \<and> take 1 args = [''clone'']) t)"

section \<open>An example world\<close>

text \<open>
  A remote repository with three commits on \<open>master\<close>, the second of them tagged, and a
  machine whose cache holds nothing yet.
\<close>

definition example_history :: repository where
  "example_history =
     \<lparr>objects =
        [\<lparr>c_hash = ''c3d4e5f6a7b8'', c_parents = [''b2c3d4e5f6a7''], c_time = 1530000300,
          c_subject = ''Add the reporter''\<rparr>,
         \<lparr>c_hash = ''b2c3d4e5f6a7'', c_parents = [''a1b2c3d4e5f6''], c_time = 1530000200,
          c_subject = ''Parse the log''\<rparr>,
         \<lparr>c_hash = ''a1b2c3d4e5f6'', c_parents = [], c_time = 1530000100,
          c_subject = ''Initial commit''\<rparr>],
      branches = [(''master'', ''c3d4e5f6a7b8'')],
      tags = [(''v1.0'', ''b2c3d4e5f6a7'')],
      head = ''master''\<rparr>"

definition example_world :: world where
  "example_world =
     \<lparr>TempDir = ''/tmp'',
      remotes = [(''https://github.com/acme/widget'', example_history)],
      fs = [(''/tmp'', empty_directory)],
      trace = []\<rparr>"

text \<open>The same machine after the repository has been cloned into its cache directory.\<close>

definition example_cloned :: world where
  "example_cloned =
     \<lparr>TempDir = ''/tmp'',
      remotes = [(''https://github.com/acme/widget'', example_history)],
      fs = [(''/tmp/github_com/acme_widget'',
             \<lparr>files = [], dotgit = Some (''https://github.com/acme/widget'', example_history)\<rparr>),
            (''/tmp/github_com'', empty_directory),
            (''/tmp'', empty_directory)],
      trace = []\<rparr>"

text \<open>
  A remote repository whose only branch, and default branch, is \<open>main\<close>, and a machine
  whose cache holds nothing yet.
\<close>

definition example_main_history :: repository where
  "example_main_history =
     \<lparr>objects =
        [\<lparr>c_hash = ''e5f6a7b8c9d0'', c_parents = [''d4e5f6a7b8c9''], c_time = 1600000200,
          c_subject = ''Second''\<rparr>,
         \<lparr>c_hash = ''d4e5f6a7b8c9'', c_parents = [], c_time = 1600000100,
          c_subject = ''First''\<rparr>],
      branches = [(''main'', ''e5f6a7b8c9d0'')],
      tags = [],
      head = ''main''\<rparr>"

definition example_main_world :: world where
  "example_main_world =
     \<lparr>TempDir = ''/tmp'',
      remotes = [(''https://github.com/acme/gadget'', example_main_history)],
      fs = [(''/tmp'', empty_directory)],
      trace = []\<rparr>"

definition example_repo :: GitRepo where
  "example_repo =
     \<lparr>Revision = ''c3d4e5f6a7b8'', URL = ''https://github.com/acme/widget'',
      Dir = ''/tmp/github_com/acme_widget''\<rparr>"

section \<open>Archive URLs\<close>

text \<open>
  Claim C4.  The archive rule with the candidate URL
  \<^verbatim>\<open>https://github.com/acme/widget/archive/v1.2.3.tar.gz\<close> resolves to the repository
  \<^verbatim>\<open>https://github.com/acme/widget\<close> at revision \<^verbatim>\<open>v1.2.3\<close>.
\<close>

theorem HTTPToGit_github_archive:
  "HTTPToGit \<lparr>URLs = [''https://github.com/acme/widget/archive/v1.2.3.tar.gz''], Name = n\<rparr>
   = Inr \<lparr>pkgRevision = ''v1.2.3'', pkgURL = ''https://github.com/acme/widget''\<rparr>"
  by code_simp

text \<open>
  Claim C3.  The codeload URL
  \<^verbatim>\<open>https://codeload.github.com/acme/widget/tar.gz/5d2fd3ccab986d52112bf301d47a819783339d0e\<close>
  should resolve to \<^verbatim>\<open>https://github.com/acme/widget\<close> at that revision.  The mapper of
  \<open>codeload.github.com\<close> matches the path against \<open>githubRE\<close>, which wants \<open>archive\<close> or
  \<open>releases/download\<close> as third segment: the URL is rejected and the rule does not
  resolve.  The pattern \<open>githubCodeloadRE\<close>, which the mapper does not use, matches the
  path with the owner, the repository and the revision the claim names.
\<close>

theorem HTTPToGit_codeload_unresolved:
  "HTTPToGit \<lparr>URLs = [''https://codeload.github.com/acme/widget/tar.gz/5d2fd3ccab986d52112bf301d47a819783339d0e''],
              Name = n\<rparr>
   = Inl (Errorf ''no valid url'')
   \<and> FindStringSubmatch githubCodeloadRE 3
         ''/acme/widget/tar.gz/5d2fd3ccab986d52112bf301d47a819783339d0e''
       = [''/acme/widget/tar.gz/5d2fd3ccab986d52112bf301d47a819783339d0e'',
          ''acme'', ''widget'', ''5d2fd3ccab986d52112bf301d47a819783339d0e'']"
  by code_simp

section \<open>The commit log\<close>

subsection \<open>Splitting at a single byte\<close>

lemma Index_single_notin: "c \<notin> set s \<Longrightarrow> Index s [c] = None"
  by (induction s) auto
lemma Index_single_append: "c \<notin> set h \<Longrightarrow> Index (h @ c # rest) [c] = Some (length h)"
  by (induction h) auto

lemma genSplit_step:
  "c \<notin> set h \<Longrightarrow> genSplit (Suc (Suc n)) (h @ c # rest) [c] = h # genSplit (Suc n) rest [c]"
  by (simp add: Index_single_append)

lemma genSplit_last: "c \<notin> set s \<Longrightarrow> genSplit (Suc n) s [c] = [s]"
  by (cases n) (simp_all add: Index_single_notin)

lemma genSplit_length:
  "length (genSplit n s [c]) = min n (Suc (count_list s c))"
proof (induction n arbitrary: s)
  case 0
  show ?case by simp
next
  case (Suc k)
  show ?case
  proof (cases "c \<in> set s")
    case False
    then have "genSplit (Suc k) s [c] = [s]" by (rule genSplit_last)
    moreover from False have "count_list s c = 0" by simp
    ultimately show ?thesis by simp
  next
    case True
    from split_list_first [OF True] obtain h rest
      where s: "s = h @ c # rest" and h: "c \<notin> set h"
      by auto
    from h have ch: "count_list h c = 0" by simp
    show ?thesis
    proof (cases k)
      case 0
      then show ?thesis by simp
    next
      case (Suc m)
      have "genSplit (Suc (Suc m)) (h @ c # rest) [c] = h # genSplit (Suc m) rest [c]"
        using h by (rule genSplit_step)
      moreover have "length (genSplit (Suc m) rest [c]) = min (Suc m) (Suc (count_list rest c))"
        using Suc.IH [of rest] \<open>k = Suc m\<close> by simp
      ultimately show ?thesis
        unfolding s \<open>k = Suc m\<close> using ch by simp
    qed
  qed
qed
lemma SplitN_four_fields:
  assumes "NUL \<notin> set h" "NUL \<notin> set t" "NUL \<notin> set e"
  shows "SplitN (h @ NUL # t @ NUL # e @ NUL # title) [NUL] 4 = [h, t, e, title]"
proof -
  have four: "(4::nat) = Suc (Suc (Suc (Suc 0)))" by simp
  show ?thesis
    unfolding SplitN_def four using assms
    by (simp add: Index_single_append)
qed

lemma parse_loop_Inr:
  "parse_loop toks cs = Inr res \<Longrightarrow> tok \<in> set toks \<Longrightarrow>
     int (length tok) < MaxScanTokenSize
     \<and> length (SplitN (dropCR tok) [NUL] 4) = 4
     \<and> (\<exists>ts. ParseInt (SplitN (dropCR tok) [NUL] 4 ! 2) = Inr ts)"
proof (induction toks arbitrary: cs)
  case Nil
  then show ?case by simp
next
  case (Cons a toks)
  from Cons.prems(1) have a: "int (length a) < MaxScanTokenSize
     \<and> length (SplitN (dropCR a) [NUL] 4) = 4
     \<and> (\<exists>ts. ParseInt (SplitN (dropCR a) [NUL] 4 ! 2) = Inr ts)"
    by (auto simp: Let_def split: if_splits sum.splits)
  from Cons.prems(1) obtain cs' where "parse_loop toks cs' = Inr res"
    by (auto simp: Let_def split: if_splits sum.splits)
  with Cons.IH Cons.prems(2) a show ?case by auto
qed

lemma scan_lines_no_LF:
  "LF \<notin> set l \<Longrightarrow> scan_lines acc l = (if rev acc @ l = [] then [] else [rev acc @ l])"
  by (induction l arbitrary: acc) auto

lemma is_digit_not_sign: "is_digit c \<Longrightarrow> c \<noteq> CHR ''+'' \<and> c \<noteq> CHR ''-'' \<and> c \<noteq> NUL \<and> c \<noteq> LF"
  by (auto simp: is_digit_def byte_def NUL_def LF_def)

lemma digit_val_nonneg: "is_digit c \<Longrightarrow> 0 \<le> digit_val c"
  by (simp add: is_digit_def digit_val_def)

lemma foldl_digits_mono:
  "list_all is_digit ds \<Longrightarrow> 0 \<le> n \<Longrightarrow> n \<le> foldl (\<lambda>a c. 10 * a + digit_val c) n ds"
proof (induction ds arbitrary: n)
  case Nil
  show ?case by simp
next
  case (Cons c ds)
  from Cons.prems have d: "0 \<le> digit_val c" and ds: "list_all is_digit ds"
    by (simp_all add: digit_val_nonneg)
  with Cons.prems(2) have "0 \<le> 10 * n + digit_val c" by simp
  from Cons.IH [OF ds this] d Cons.prems(2) show ?case by simp
qed

lemma ParseUint_loop_digits:
  "list_all is_digit ds \<Longrightarrow> 0 \<le> n \<Longrightarrow> foldl (\<lambda>a c. 10 * a + digit_val c) n ds < 2 ^ 64 \<Longrightarrow>
     ParseUint_loop s0 n ds = Inr (foldl (\<lambda>a c. 10 * a + digit_val c) n ds)"
proof (induction ds arbitrary: n)
  case Nil
  show ?case by simp
next
  case (Cons c ds)
  from Cons.prems have c: "is_digit c" and ds: "list_all is_digit ds" by simp_all
  from c Cons.prems(2) have n': "0 \<le> 10 * n + digit_val c"
    using digit_val_nonneg [of c] by simp
  from foldl_digits_mono [OF ds n'] Cons.prems(3) have small: "10 * n + digit_val c < 2 ^ 64"
    by simp
  from Cons.prems(3) have "foldl (\<lambda>a c. 10 * a + digit_val c) (10 * n + digit_val c) ds < 2 ^ 64"
    by simp
  from Cons.IH [OF ds n' this] c small show ?case by simp
qed

lemma ParseInt_digits:
  assumes "e \<noteq> []" "list_all is_digit e" "decimal e < 2 ^ 63"
  shows "ParseInt e = Inr (decimal e)"
proof -
  from assms(1) obtain c cs where e: "e = c # cs" by (cases e) auto
  with assms(2) have "is_digit c" by simp
  then have sign: "c \<noteq> CHR ''+''" "c \<noteq> CHR ''-''" using is_digit_not_sign by blast+
  have "decimal e < 2 ^ 64" using assms(3) by simp
  then have "ParseUint_loop e 0 e = Inr (decimal e)"
    using ParseUint_loop_digits [OF assms(2), of 0 e] by (simp add: decimal_def)
  then show ?thesis
    using assms(3) sign unfolding ParseInt_def e by (simp add: Let_def)
qed

lemma digits_no_NUL: "list_all is_digit e \<Longrightarrow> NUL \<notin> set e"
  using is_digit_not_sign by (auto simp: list_all_iff)

lemma dropCR_id: "s \<noteq> [] \<Longrightarrow> last s \<noteq> CR \<Longrightarrow> dropCR s = s"
  by (simp add: dropCR_def)

subsection \<open>Malformed records\<close>

text \<open>
  Claim C5, as stated: a record whose number of NUL-separated fields is not exactly
  four makes the extraction fail.  \<open>parseChangelog\<close> splits with \<open>SplitN line "\x00" 4\<close>,
  which leaves every NUL after the third one in the last piece: the record below has
  five NUL-separated fields (four NUL bytes) and is parsed, the surplus staying in the
  title.
\<close>

theorem parseChangelog_five_fields:
  "count_list (''h'' @ [NUL, NUL] @ ''1'' @ [NUL] @ ''t'' @ [NUL] @ ''x'') NUL = 4
   \<and> parseChangelog (''h'' @ [NUL, NUL] @ ''1'' @ [NUL] @ ''t'' @ [NUL] @ ''x'')
       = Inr [\<lparr>Hash = ''h'', Tags = [], Date = 1, Title = ''t'' @ [NUL] @ ''x''\<rparr>]"
  by code_simp

text \<open>
  Claim C5, amended.  If a line of the stream has fewer than four NUL-separated fields
  (fewer than three NUL bytes), or if its third field is not accepted by
  \<open>strconv.ParseInt\<close>, then \<open>parseChangelog\<close> returns an error and no commit list; the
  commits parsed before that line are dropped.  A line is a token of the scanner with
  one trailing carriage return removed.
\<close>

theorem parseChangelog_malformed:
  assumes tok: "tok \<in> set (scan_lines [] rd)"
    and bad: "count_list (dropCR tok) NUL < 3
              \<or> (\<exists>h t e title err. dropCR tok = h @ NUL # t @ NUL # e @ NUL # title
                    \<and> NUL \<notin> set h \<and> NUL \<notin> set t \<and> NUL \<notin> set e \<and> ParseInt e = Inl err)"
  shows "\<exists>err. parseChangelog rd = Inl err"
proof (cases "parseChangelog rd")
  case (Inl err)
  then show ?thesis by blast
next
  case (Inr res)
  then have ok: "length (SplitN (dropCR tok) [NUL] 4) = 4
     \<and> (\<exists>ts. ParseInt (SplitN (dropCR tok) [NUL] 4 ! 2) = Inr ts)"
    using parse_loop_Inr [of "scan_lines [] rd" "[]" res tok] tok
    by (simp add: parseChangelog_def)
  from bad show ?thesis
  proof
    assume "count_list (dropCR tok) NUL < 3"
    then have "length (SplitN (dropCR tok) [NUL] 4) < 4"
      by (simp add: SplitN_def genSplit_length)
    with ok show ?thesis by simp
  next
    assume "\<exists>h t e title err. dropCR tok = h @ NUL # t @ NUL # e @ NUL # title
                    \<and> NUL \<notin> set h \<and> NUL \<notin> set t \<and> NUL \<notin> set e \<and> ParseInt e = Inl err"
    then obtain h t e title err where
      l: "dropCR tok = h @ NUL # t @ NUL # e @ NUL # title"
      and n: "NUL \<notin> set h" "NUL \<notin> set t" "NUL \<notin> set e" and p: "ParseInt e = Inl err"
      by blast
    have "SplitN (dropCR tok) [NUL] 4 = [h, t, e, title]"
      unfolding l using n by (rule SplitN_four_fields)
    with ok p show ?thesis by simp
  qed
qed

theorem parseChangelog_malformed_witness:
  "(\<exists>err. parseChangelog (''abc'' @ [NUL] @ ''tag: v1'' @ [NUL] @ ''123'' @ [LF]) = Inl err)
   \<and> (\<exists>err. parseChangelog (''abc'' @ [NUL, NUL] @ ''12x'' @ [NUL] @ ''title'') = Inl err)"
proof
  have tok: "''abc'' @ [NUL] @ ''tag: v1'' @ [NUL] @ ''123''
        \<in> set (scan_lines [] (''abc'' @ [NUL] @ ''tag: v1'' @ [NUL] @ ''123'' @ [LF]))"
    by (simp add: NUL_def LF_def)
  have "count_list (dropCR (''abc'' @ [NUL] @ ''tag: v1'' @ [NUL] @ ''123'')) NUL < 3"
    by (simp add: dropCR_def NUL_def CR_def)
  with tok show "\<exists>err. parseChangelog (''abc'' @ [NUL] @ ''tag: v1'' @ [NUL] @ ''123'' @ [LF]) = Inl err"
    using parseChangelog_malformed by blast
next
  let ?l = "''abc'' @ [NUL, NUL] @ ''12x'' @ [NUL] @ ''title''"
  have tok: "?l \<in> set (scan_lines [] ?l)"
    by (simp add: NUL_def LF_def)
  have d: "dropCR ?l = ''abc'' @ NUL # [] @ NUL # ''12x'' @ NUL # ''title''"
    by (simp add: dropCR_def NUL_def CR_def)
  have p: "ParseInt ''12x'' = Inl (NumError ''12x'' ''invalid syntax'')"
    by code_simp
  have "\<exists>h t e title err. dropCR ?l = h @ NUL # t @ NUL # e @ NUL # title
                    \<and> NUL \<notin> set h \<and> NUL \<notin> set t \<and> NUL \<notin> set e \<and> ParseInt e = Inl err"
    apply (rule exI [of _ "''abc''"], rule exI [of _ "[]"], rule exI [of _ "''12x''"],
           rule exI [of _ "''title''"], rule exI [of _ "NumError ''12x'' ''invalid syntax''"])
    using d p by (simp add: NUL_def)
  with tok show "\<exists>err. parseChangelog ?l = Inl err"
    using parseChangelog_malformed [of ?l ?l] by blast
qed

subsection \<open>Well-formed records\<close>

lemma scan_lines_line:
  "LF \<notin> set l \<Longrightarrow> scan_lines acc (l @ LF # rest) = (rev acc @ l) # scan_lines [] rest"
  by (induction l arbitrary: acc) auto

lemma scan_lines_Join:
  "\<forall>l \<in> set ls. LF \<notin> set l \<and> l \<noteq> [] \<Longrightarrow> scan_lines [] (Join ls [LF]) = ls"
proof (induction ls "[LF]" rule: Join.induct)
  case 1
  show ?case by simp
next
  case (2 e)
  then show ?case by (simp add: scan_lines_no_LF)
next
  case (3 e v va)
  from 3(2) have "LF \<notin> set e" by simp
  then have "scan_lines [] (e @ LF # Join (v # va) [LF]) = e # scan_lines [] (Join (v # va) [LF])"
    using scan_lines_line [of e "[]"] by simp
  with 3 show ?case by simp
qed

lemma parse_loop_records:
  assumes "\<forall>rec \<in> set rs. well_formed rec"
  shows "parse_loop (map (\<lambda>(h, t, e, title). h @ NUL # t @ NUL # e @ NUL # title) rs) cs
         = Inr (cs @ map (\<lambda>(h, t, e, title).
                            \<lparr>Hash = h, Tags = decode_tags t, Date = decimal e, Title = title\<rparr>) rs)"
  using assms
proof (induction rs arbitrary: cs)
  case Nil
  show ?case by simp
next
  case (Cons rec rs)
  obtain h t e title where rec: "rec = (h, t, e, title)" by (cases rec) auto
  let ?line = "h @ NUL # t @ NUL # e @ NUL # title"
  from Cons.prems rec have wf: "NUL \<notin> set h" "NUL \<notin> set t" "e \<noteq> []" "list_all is_digit e"
    "decimal e < 2 ^ 63" "last (NUL # title) \<noteq> CR" "int (length ?line) < MaxScanTokenSize"
    by (simp_all add: well_formed_def)
  have "last ?line = last (NUL # title)" by simp
  with wf(6) have cr: "dropCR ?line = ?line"
    by (intro dropCR_id) simp_all
  have parts: "SplitN ?line [NUL] 4 = [h, t, e, title]"
    using wf(1,2) digits_no_NUL [OF wf(4)] by (rule SplitN_four_fields)
  have ts: "ParseInt e = Inr (decimal e)" using wf(3,4,5) by (rule ParseInt_digits)
  have step: "parse_loop (?line # toks) cs
        = parse_loop toks (cs @ [\<lparr>Hash = h, Tags = decode_tags t, Date = decimal e, Title = title\<rparr>])"
    for toks
    using wf(7) unfolding parse_loop.simps cr parts Let_def by (simp add: ts)
  let ?f = "\<lambda>(h, t, e, title). h @ NUL # t @ NUL # e @ NUL # title"
  let ?g = "\<lambda>(h, t, e, title).
               \<lparr>Hash = h, Tags = decode_tags t, Date = decimal e, Title = title\<rparr>"
  have a: "parse_loop (map ?f (rec # rs)) cs = parse_loop (map ?f rs) (cs @ [?g rec])"
    unfolding rec by (simp only: list.map prod.case step)
  from Cons.prems have "\<forall>rec \<in> set rs. well_formed rec" by simp
  from Cons.IH [OF this] have
    b: "parse_loop (map ?f rs) (cs @ [?g rec]) = Inr ((cs @ [?g rec]) @ map ?g rs)" .
  show ?case unfolding a b by simp
qed

text \<open>
  Claim C6.  A stream of well-formed records, separated by line feeds, parses to one
  commit per record, in the order of the stream.  For each record \<open>hash NUL tags NUL
  epoch NUL title\<close> the hash and the title of the commit are the fields as they are, the
  date is the decimal value of the epoch, and the tags are none for an empty field and
  otherwise the pieces of the field between \<open>, \<close> with a leading \<open>tag: \<close> removed from
  each, in the order of the field.
\<close>

theorem parseChangelog_records:
  assumes "\<forall>rec \<in> set rs. well_formed rec"
  shows "parseChangelog (Join (map (\<lambda>(h, t, e, title). h @ NUL # t @ NUL # e @ NUL # title) rs) [LF])
         = Inr (map (\<lambda>(h, t, e, title).
                       \<lparr>Hash = h,
                        Tags = (if t = [] then []
                                else map (\<lambda>x. TrimPrefix x ''tag: '') (Split t '', '')),
                        Date = decimal e, Title = title\<rparr>) rs)"
proof -
  let ?f = "\<lambda>(h, t, e, title). h @ NUL # t @ NUL # e @ NUL # title"
  have "LF \<notin> set l \<and> l \<noteq> []" if "l \<in> set (map ?f rs)" for l
  proof -
    from that obtain h t e title where r: "(h, t, e, title) \<in> set rs" and l: "l = ?f (h, t, e, title)"
      by auto
    from r assms have wf: "well_formed (h, t, e, title)" by blast
    then have "LF \<notin> set e" using is_digit_not_sign by (auto simp: well_formed_def list_all_iff)
    moreover have "LF \<noteq> NUL" by (simp add: LF_def NUL_def)
    ultimately show ?thesis using wf l by (auto simp: well_formed_def)
  qed
  then have "scan_lines [] (Join (map ?f rs) [LF]) = map ?f rs"
    by (intro scan_lines_Join) blast
  moreover have "(\<lambda>(h, t, e, title). \<lparr>Hash = h, Tags = decode_tags t, Date = decimal e, Title = title\<rparr>)
      = (\<lambda>(h, t, e, title). \<lparr>Hash = h,
                        Tags = (if t = [] then []
                                else map (\<lambda>x. TrimPrefix x ''tag: '') (Split t '', '')),
                        Date = decimal e, Title = title\<rparr>)"
    by (auto simp: decode_tags_def fun_eq_iff)
  ultimately show ?thesis
    using parse_loop_records [OF assms, of "[]"] by (simp add: parseChangelog_def)
qed

theorem parseChangelog_records_witness:
  "parseChangelog
     (''c3d4e5f6a7b8'' @ NUL # [] @ NUL # ''1530000300'' @ NUL # ''Add the reporter'' @ LF #
      ''b2c3d4e5f6a7'' @ NUL # ''tag: v1.0, tag: stable'' @ NUL # ''1530000200'' @ NUL #
      ''Parse the log'')
   = Inr [\<lparr>Hash = ''c3d4e5f6a7b8'', Tags = [], Date = 1530000300, Title = ''Add the reporter''\<rparr>,
          \<lparr>Hash = ''b2c3d4e5f6a7'', Tags = [''v1.0'', ''stable''], Date = 1530000200,
           Title = ''Parse the log''\<rparr>]"
proof -
  let ?rs = "[(''c3d4e5f6a7b8'', [], ''1530000300'', ''Add the reporter''),
              (''b2c3d4e5f6a7'', ''tag: v1.0, tag: stable'', ''1530000200'', ''Parse the log'')]"
  have "\<forall>rec \<in> set ?rs. well_formed rec"
    by (simp add: well_formed_def NUL_def LF_def CR_def is_digit_def byte_def decimal_def
        digit_val_def MaxScanTokenSize_def)
  from parseChangelog_records [OF this] show ?thesis
    by (simp add: Split_def TrimPrefix_def decimal_def digit_val_def byte_def)
qed

section \<open>Rendering the report\<close>







section \<open>The cache directory of a URL\<close>

lemma rmatch_ClassPlus_hit:
  assumes "P c"
  shows "rmatch (ClassPlus P) (c # cs, caps)
         = (dropWhile P cs, caps)
           # map (\<lambda>k. (drop k (c # cs), caps)) (rev [1 ..< Suc (length (takeWhile P cs))])"
proof -
  have "drop (length (takeWhile P cs)) cs = dropWhile P cs"
    by (simp add: dropWhile_eq_drop)
  with assms show ?thesis by simp
qed

lemma rmatch_ClassPlus_miss: "\<not> P c \<Longrightarrow> rmatch (ClassPlus P) (c # cs, caps) = []"
  by simp

lemma ReplaceAllString_ClassPlus:
  "ReplaceAllString (ClassPlus P) s [f] = collapse_runs P f s"
proof (induction P f s rule: collapse_runs.induct)
  case (1 P filler)
  show ?case by simp
next
  case (2 P filler c cs)
  show ?case
  proof (cases "P c")
    case True
    have "length (dropWhile P cs) \<le> length cs" by (rule length_dropWhile_le)
    with True 2(1) show ?thesis
      unfolding ReplaceAllString.simps rmatch_ClassPlus_hit [of P c cs "[]", OF True] by simp
  next
    case False
    with 2(2) show ?thesis
      unfolding ReplaceAllString.simps rmatch_ClassPlus_miss [of P c cs "[]", OF False] by simp
  qed
qed

lemma cache_path_collapse:
  "cache_path root u =
     filepath_Join [root, collapse_runs non_word (CHR ''_'') (Host u),
        collapse_runs non_word (CHR ''_'') (TrimSuffix (TrimPrefix (Path u) ''/'') ''.git'')]"
  by (simp add: cache_path_def pathUnsafeRE_def ReplaceAllString_ClassPlus)

text \<open>
  Claim C8, as stated: the cache path is the cache root, the sanitised host and the
  sanitised path of the URL, where sanitising is nothing but the replacement of every
  run of non-word characters by one filler.  \<open>ensureCacheDir\<close> first removes a leading
  slash and a trailing \<open>.git\<close> from the path: for
  \<^verbatim>\<open>https://github.com/acme/widget.git\<close> the directory is
  \<^verbatim>\<open>/tmp/github_com/acme_widget\<close>, which is neither the sanitised path
  \<^verbatim>\<open>/acme/widget.git\<close> nor the sanitised \<^verbatim>\<open>acme/widget.git\<close> below the sanitised host.
\<close>

theorem ensureCacheDir_trims_path:
  "snd (ensureCacheDir example_world
          \<lparr>Revision = ''v1.0'', URL = ''https://github.com/acme/widget.git'', Dir = []\<rparr>)
     = Inr \<lparr>Revision = ''v1.0'', URL = ''https://github.com/acme/widget.git'',
            Dir = ''/tmp/github_com/acme_widget''\<rparr>
   \<and> url_Parse ''https://github.com/acme/widget.git''
     = Inr \<lparr>Scheme = ''https'', Opaque = [], User = None, Host = ''github.com'',
            Path = ''/acme/widget.git'', RawQuery = [], Fragment = []\<rparr>
   \<and> ''/tmp'' @ ''/'' @ collapse_runs non_word (CHR ''_'') ''github.com'' @ ''/'' @
       collapse_runs non_word (CHR ''_'') ''/acme/widget.git''
     = ''/tmp/github_com/_acme_widget_git''
   \<and> ''/tmp'' @ ''/'' @ collapse_runs non_word (CHR ''_'') ''github.com'' @ ''/'' @
       collapse_runs non_word (CHR ''_'') ''acme/widget.git''
     = ''/tmp/github_com/acme_widget_git''"
  by code_simp

text \<open>
  Claim C8, amended.  When \<open>ensureCacheDir\<close> succeeds, the URL parses and the cache
  directory is \<open>filepath.Join\<close> of the cache root, the sanitised host and the sanitised
  repository name; the repository name is the path of the URL without one leading
  slash and without one trailing \<open>.git\<close>, and sanitising replaces every run of
  non-word characters by a single underscore.  The path is a function of the cache
  root and the URL alone.
\<close>

theorem ensureCacheDir_path:
  assumes "ensureCacheDir w r = (w', Inr r')"
  shows "\<exists>u. url_Parse (URL r) = Inr u
           \<and> Dir r' = filepath_Join
                [cacheDir w, collapse_runs non_word (CHR ''_'') (Host u),
                 collapse_runs non_word (CHR ''_'')
                   (TrimSuffix (TrimPrefix (Path u) ''/'') ''.git'')]"
  using assms
  by (auto simp: ensureCacheDir_def Let_def cache_path_collapse split: sum.splits)

theorem ensureCacheDir_path_witness:
  "(\<exists>u. url_Parse ''https://github.com/acme/widget.git'' = Inr u
           \<and> ''/tmp/github_com/acme_widget'' = filepath_Join
                [''/tmp'', collapse_runs non_word (CHR ''_'') (Host u),
                 collapse_runs non_word (CHR ''_'')
                   (TrimSuffix (TrimPrefix (Path u) ''/'') ''.git'')])
   \<and> (\<exists>u. url_Parse ''https://git:pw@github.com/acme/my%20widget.git'' = Inr u
           \<and> ''/tmp/github_com/acme_my_widget'' = filepath_Join
                [''/tmp'', collapse_runs non_word (CHR ''_'') (Host u),
                 collapse_runs non_word (CHR ''_'')
                   (TrimSuffix (TrimPrefix (Path u) ''/'') ''.git'')])"
proof -
  have a: "ensureCacheDir example_world
          \<lparr>Revision = ''v1.0'', URL = ''https://github.com/acme/widget.git'', Dir = []\<rparr>
        = (example_world\<lparr>fs := [(''/tmp/github_com/acme_widget'', empty_directory),
                                 (''/tmp/github_com'', empty_directory),
                                 (''/tmp'', empty_directory)]\<rparr>,
           Inr \<lparr>Revision = ''v1.0'', URL = ''https://github.com/acme/widget.git'',
                Dir = ''/tmp/github_com/acme_widget''\<rparr>)"
    by code_simp
  have b: "ensureCacheDir example_world
          \<lparr>Revision = ''v1.0'', URL = ''https://git:pw@github.com/acme/my%20widget.git'', Dir = []\<rparr>
        = (example_world\<lparr>fs := [(''/tmp/github_com/acme_my_widget'', empty_directory),
                                 (''/tmp/github_com'', empty_directory),
                                 (''/tmp'', empty_directory)]\<rparr>,
           Inr \<lparr>Revision = ''v1.0'', URL = ''https://git:pw@github.com/acme/my%20widget.git'',
                Dir = ''/tmp/github_com/acme_my_widget''\<rparr>)"
    by code_simp
  from ensureCacheDir_path [OF a] ensureCacheDir_path [OF b] show ?thesis
    by (simp add: cacheDir_def example_world_def)
qed

section \<open>Update detection\<close>

lemma is_ancestor_refl: "is_ancestor r h h"
  by (simp add: is_ancestor_def)

lemma is_ancestor_rtrancl: "is_ancestor r a b \<longleftrightarrow> (b, a) \<in> (set (parent_links r))\<^sup>*"
  by (auto simp: is_ancestor_def rtrancl_eq_or_trancl)

lemma git_exec_merge_base:
  "map_of (fs w) dir = Some d \<Longrightarrow>
   git_exec w dir [''merge-base'', ''--is-ancestor'', a, b] = git_merge_base_is_ancestor w d a b"
  by (simp add: git_exec_def)

lemma CheckUpdate_never_false: "snd (CheckUpdate w r a b) \<noteq> Inr False"
  by (auto simp: CheckUpdate_def split: prod.splits sum.splits)

text \<open>
  Claim C1.  The update check should return true exactly when the pinned revision is
  an ancestor of the head and not the head itself, and false when both are the same
  commit.  \<open>CheckUpdate\<close> returns true whenever \<open>git merge-base --is-ancestor\<close> exits with
  status 0, and for git a commit is an ancestor of itself: for the head commit of the
  example clone, given by its full hash, by an abbreviated hash or as \<open>HEAD\<close>, the
  result \<open>hasUpdate\<close> is true although there is no update.  \<open>CheckUpdate\<close> never returns
  false without an error, so the branch \<open>if !p\<close> of \<open>NewCommits\<close> is never taken.  A
  revision that is not in the history gives the error \<open>runGit\<close> builds for every failed
  command.
\<close>

theorem CheckUpdate_same_revision:
  "snd (CheckUpdate example_cloned example_repo ''c3d4e5f6a7b8'' ''c3d4e5f6a7b8'') = Inr True
   \<and> rev_parse example_history ''HEAD'' = Some ''c3d4e5f6a7b8''
   \<and> snd (CheckUpdate example_cloned example_repo ''c3d4e5f6a7b8'' ''HEAD'') = Inr True
   \<and> snd (CheckUpdate example_cloned example_repo ''c3d4e5f'' ''HEAD'') = Inr True
   \<and> snd (CheckUpdate example_cloned example_repo ''0000000'' ''HEAD'')
       = Inl (GitFailed [''merge-base'', ''--is-ancestor'', ''0000000'', ''HEAD'']
                ''fatal: Not a valid object name'' ''exit status 128'')"
  by code_simp

section \<open>Dependencies that are up to date\<close>

text \<open>
  Claim C2.  A dependency pinned to the head of its repository should give no changelog
  and no report.  \<open>NewCommits\<close> has a branch for this (\<open>if !p\<close> returns no changelog and
  no error), but \<open>CheckUpdate\<close> never returns false without an error, and for the head
  commit it returns true: for the dependency of the example world pinned at the head,
  \<open>NewCommits\<close> returns a changelog with an empty log and the worker writes a report of
  0 new commits into the cache directory.  Had the branch been taken, the worker would
  have passed the nil changelog to \<open>writeToFile\<close>, which panics on it.
\<close>

theorem up_to_date_dependency_reported:
  "snd (NewCommits example_world ''c3d4e5f6a7b8'' ''https://github.com/acme/widget'')
     = Inr (Some \<lparr>Repo = example_repo, Log = []\<rparr>)
   \<and> snd (worker False example_world
            [\<lparr>pkgRevision = ''c3d4e5f6a7b8'', pkgURL = ''https://github.com/acme/widget''\<rparr>])
     = Finished
   \<and> read_file
        (fst (worker False example_world
               [\<lparr>pkgRevision = ''c3d4e5f6a7b8'', pkgURL = ''https://github.com/acme/widget''\<rparr>]))
        ''/tmp/github_com/acme_widget/report.md''
     = Some (''# https://github.com/acme/widget '' @ [LF] @
             ''<details><summary>There are 0 new commits.</summary><p>'' @ [LF] @ [LF] @
             ''</p></details>'' @ [LF])
   \<and> writeToFile False example_cloned None
     = (example_cloned, Panic (RuntimePanic ''invalid memory address or nil pointer dereference''))"
  by code_simp

section \<open>Synchronising a mirror\<close>

lemma map_of_filter_neq:
  "map_of (filter (\<lambda>(k', v'). k' \<noteq> k) xs) q = (if q = k then None else map_of xs q)"
  by (induction xs) auto

lemma map_of_put: "map_of (put k v xs) q = (if q = k then Some v else map_of xs q)"
  by (simp add: put_def map_of_filter_neq)

lemma mkdirs_keeps:
  "mkdirs qs w = Inr w' \<Longrightarrow>
     trace w' = trace w \<and> TempDir w' = TempDir w \<and> remotes w' = remotes w"
proof (induction qs arbitrary: w)
  case Nil
  then show ?case by simp
next
  case (Cons q qs)
  show ?case
  proof (cases "map_of (fs w) q")
    case None
    with Cons.prems have "mkdirs qs (w\<lparr>fs := put q empty_directory (fs w)\<rparr>) = Inr w'"
      by (simp split: if_splits)
    from Cons.IH [OF this] show ?thesis by simp
  next
    case (Some d)
    with Cons.prems have "mkdirs qs w = Inr w'"
      by (simp split: if_splits)
    from Cons.IH [OF this] show ?thesis .
  qed
qed

lemma MkdirAll_keeps:
  "MkdirAll w p = Inr w' \<Longrightarrow>
     trace w' = trace w \<and> TempDir w' = TempDir w \<and> remotes w' = remotes w"
  using mkdirs_keeps [of "path_chain p" w w']
  by (auto simp: MkdirAll_def split: if_splits)

lemma MkdirAll_existing: "map_of (fs w) p = Some d \<Longrightarrow> MkdirAll w p = Inr w"
  by (simp add: MkdirAll_def)

lemma ensureCacheDir_ok:
  assumes "ensureCacheDir w r = (w', Inr r')"
  shows "trace w' = trace w \<and> TempDir w' = TempDir w \<and> remotes w' = remotes w
         \<and> URL r' = URL r \<and> Revision r' = Revision r
         \<and> (\<exists>u. url_Parse (URL r) = Inr u \<and> Dir r' = cache_path (TempDir w) u
                \<and> MkdirAll w (Dir r') = Inr w')"
  using assms MkdirAll_keeps
  by (auto simp: ensureCacheDir_def Let_def cacheDir_def split: sum.splits)

lemma ensureCacheDir_fail: "ensureCacheDir w r = (w', Inl e) \<Longrightarrow> w' = w"
  by (auto simp: ensureCacheDir_def Let_def split: sum.splits)

lemma git_exec_clone:
  "map_of (fs w) dir = Some d \<Longrightarrow>
   git_exec w dir [''clone'', url, ''--quiet'', ''.''] = git_clone w dir d url"
  by (simp add: git_exec_def)

lemma git_exec_pull:
  "map_of (fs w) dir = Some d \<Longrightarrow>
   git_exec w dir [''pull'', ''origin'', ''master''] = git_pull w dir d ''origin'' ''master''"
  by (simp add: git_exec_def)

lemma git_clone_cases:
  "git_clone w dir d url = (w', out, e) \<Longrightarrow>
     (e \<noteq> None \<and> w' = w)
     \<or> (e = None \<and> (\<exists>g. w' = w\<lparr>fs := put dir (d\<lparr>dotgit := Some g\<rparr>) (fs w)\<rparr>))"
  by (auto simp: git_clone_def git_fail_def split: if_splits option.splits)

lemma git_pull_cases:
  "git_pull w dir d remote branch = (w', out, e) \<Longrightarrow>
     (e \<noteq> None \<and> w' = w)
     \<or> (e = None \<and> (\<exists>g. w' = w\<lparr>fs := put dir (d\<lparr>dotgit := Some g\<rparr>) (fs w)\<rparr>))"
  by (auto simp: git_pull_def git_fail_def split: if_splits option.splits prod.splits)

lemma runGit_sync:
  assumes d: "map_of (fs w) (Dir r) = Some d"
    and args: "args = [''clone'', url, ''--quiet'', ''.''] \<or> args = [''pull'', ''origin'', ''master'']"
    and run: "runGit w r args = (w', res)"
  shows "\<exists>e. trace w' = trace w @ [(Dir r, args, e)]
           \<and> TempDir w' = TempDir w \<and> remotes w' = remotes w
           \<and> (e = None \<longleftrightarrow> (\<exists>out. res = Inr out))
           \<and> (e = None \<longrightarrow> (\<exists>d'. map_of (fs w') (Dir r) = Some d' \<and> dotgit d' \<noteq> None))
           \<and> (e \<noteq> None \<longrightarrow> fs w' = fs w)"
proof -
  obtain w1 out e where g: "git_exec w (Dir r) args = (w1, out, e)"
    by (cases "git_exec w (Dir r) args") auto
  from args d g have c: "(e \<noteq> None \<and> w1 = w)
     \<or> (e = None \<and> (\<exists>g. w1 = w\<lparr>fs := put (Dir r) (d\<lparr>dotgit := Some g\<rparr>) (fs w)\<rparr>))"
    using git_clone_cases [of w "Dir r" d url w1 out e]
      git_pull_cases [of w "Dir r" d "''origin''" "''master''" w1 out e]
    by (auto simp: git_exec_clone git_exec_pull)
  from run g have w': "w' = w1\<lparr>trace := trace w1 @ [(Dir r, args, e)]\<rparr>"
    and res: "res = (case e of Some x \<Rightarrow> Inl (GitFailed args out x) | None \<Rightarrow> Inr out)"
    by (auto simp: runGit_def)
  from c show ?thesis
  proof
    assume "e \<noteq> None \<and> w1 = w"
    with w' res show ?thesis by (auto split: option.splits)
  next
    assume "e = None \<and> (\<exists>g. w1 = w\<lparr>fs := put (Dir r) (d\<lparr>dotgit := Some g\<rparr>) (fs w)\<rparr>)"
    with w' res show ?thesis by (auto simp: map_of_put)
  qed
qed

lemma updateCache_cases:
  assumes "updateCache w r = (w', res)"
  shows "(\<exists>err. isDirEmpty w (Dir r) = Inl err \<and> w' = w \<and> res = Some err)
       \<or> (\<exists>isEmpty e. isDirEmpty w (Dir r) = Inr isEmpty
            \<and> trace w' = trace w @
                [(Dir r, if isEmpty then [''clone'', URL r, ''--quiet'', ''.'']
                         else [''pull'', ''origin'', ''master''], e)]
            \<and> TempDir w' = TempDir w \<and> remotes w' = remotes w
            \<and> (e = None \<longleftrightarrow> res = None)
            \<and> (e = None \<longrightarrow> (\<exists>d'. map_of (fs w') (Dir r) = Some d' \<and> dotgit d' \<noteq> None))
            \<and> (e \<noteq> None \<longrightarrow> fs w' = fs w))"
proof (cases "isDirEmpty w (Dir r)")
  case (Inl err)
  with assms show ?thesis by (simp add: updateCache_def)
next
  case (Inr isEmpty)
  then obtain d where d: "map_of (fs w) (Dir r) = Some d"
    by (auto simp: isDirEmpty_def split: option.splits)
  show ?thesis
  proof (cases isEmpty)
    case True
    obtain w1 res1 where run: "runGit w r [''clone'', URL r, ''--quiet'', ''.''] = (w1, res1)"
      by (cases "runGit w r [''clone'', URL r, ''--quiet'', ''.'']") auto
    from runGit_sync [OF d _ run, of "URL r"] obtain e where
      e: "trace w1 = trace w @ [(Dir r, [''clone'', URL r, ''--quiet'', ''.''], e)]"
         "TempDir w1 = TempDir w" "remotes w1 = remotes w"
         "e = None \<longleftrightarrow> (\<exists>out. res1 = Inr out)"
         "e = None \<longrightarrow> (\<exists>d'. map_of (fs w1) (Dir r) = Some d' \<and> dotgit d' \<noteq> None)"
         "e \<noteq> None \<longrightarrow> fs w1 = fs w"
      by auto
    from assms Inr True run have "w' = w1" and "res = (case res1 of Inl err \<Rightarrow> Some err | Inr out \<Rightarrow> None)"
      by (auto simp: updateCache_def split: sum.splits)
    with e Inr True show ?thesis
      by (intro disjI2 exI [of _ True] exI [of _ e]) (auto split: sum.splits)
  next
    case False
    obtain w1 res1 where run: "runGit w r [''pull'', ''origin'', ''master''] = (w1, res1)"
      by (cases "runGit w r [''pull'', ''origin'', ''master'']") auto
    from runGit_sync [OF d _ run, of "URL r"] obtain e where
      e: "trace w1 = trace w @ [(Dir r, [''pull'', ''origin'', ''master''], e)]"
         "TempDir w1 = TempDir w" "remotes w1 = remotes w"
         "e = None \<longleftrightarrow> (\<exists>out. res1 = Inr out)"
         "e = None \<longrightarrow> (\<exists>d'. map_of (fs w1) (Dir r) = Some d' \<and> dotgit d' \<noteq> None)"
         "e \<noteq> None \<longrightarrow> fs w1 = fs w"
      by auto
    from assms Inr False run have "w' = w1" and "res = (case res1 of Inl err \<Rightarrow> Some err | Inr out \<Rightarrow> None)"
      by (auto simp: updateCache_def split: sum.splits)
    with e Inr False show ?thesis
      by (intro disjI2 exI [of _ False] exI [of _ e]) (auto split: sum.splits)
  qed
qed


lemma isDirEmpty_clone:
  "map_of (fs w) dir = Some d \<Longrightarrow> dotgit d \<noteq> None \<Longrightarrow> isDirEmpty w dir = Inr False"
  by (simp add: isDirEmpty_def)

lemma NewGitRepo_steps:
  assumes "NewGitRepo w rv url = (w1, res)"
  shows "(\<exists>err. ensureCacheDir w \<lparr>Revision = rv, URL = url, Dir = []\<rparr> = (w1, Inl err)
            \<and> res = Inl err)
       \<or> (\<exists>w0 r ures. ensureCacheDir w \<lparr>Revision = rv, URL = url, Dir = []\<rparr> = (w0, Inr r)
            \<and> updateCache w0 r = (w1, ures)
            \<and> res = (case ures of Some err \<Rightarrow> Inl err | None \<Rightarrow> Inr r))"
proof -
  obtain w0 eres where e: "ensureCacheDir w \<lparr>Revision = rv, URL = url, Dir = []\<rparr> = (w0, eres)"
    by (cases "ensureCacheDir w \<lparr>Revision = rv, URL = url, Dir = []\<rparr>") auto
  show ?thesis
  proof (cases eres)
    case (Inl err)
    with assms e show ?thesis by (auto simp: NewGitRepo_def)
  next
    case (Inr r)
    obtain w2 ures where u: "updateCache w0 r = (w2, ures)"
      by (cases "updateCache w0 r") auto
    with assms e Inr show ?thesis
      by (auto simp: NewGitRepo_def split: option.splits)
  qed
qed

lemma NewGitRepo_trace:
  assumes "NewGitRepo w rv url = (w1, res)"
  shows "(trace w1 = trace w \<and> (\<exists>err. res = Inl err))
       \<or> (\<exists>d args e. trace w1 = trace w @ [(d, args, e)] \<and> (e = None \<longleftrightarrow> (\<exists>r. res = Inr r)))"
  using NewGitRepo_steps [OF assms]
proof (elim disjE exE conjE)
  fix err
  assume "ensureCacheDir w \<lparr>Revision = rv, URL = url, Dir = []\<rparr> = (w1, Inl err)" "res = Inl err"
  then show ?thesis using ensureCacheDir_fail by blast
next
  fix w0 r ures
  assume e: "ensureCacheDir w \<lparr>Revision = rv, URL = url, Dir = []\<rparr> = (w0, Inr r)"
    and u: "updateCache w0 r = (w1, ures)"
    and res: "res = (case ures of Some err \<Rightarrow> Inl err | None \<Rightarrow> Inr r)"
  from ensureCacheDir_ok [OF e] have t0: "trace w0 = trace w" by simp
  from updateCache_cases [OF u] show ?thesis
  proof (elim disjE exE conjE)
    fix err
    assume "w1 = w0" "ures = Some err"
    with t0 res show ?thesis by simp
  next
    fix isEmpty e
    assume "trace w1 = trace w0 @
                [(Dir r, if isEmpty then [''clone'', URL r, ''--quiet'', ''.'']
                         else [''pull'', ''origin'', ''master''], e)]"
      and "(e = None) = (ures = None)"
    with t0 res show ?thesis
      by (intro disjI2) (auto split: option.splits)
  qed
qed

lemma NewGitRepo_first:
  assumes e: "ensureCacheDir w \<lparr>Revision = rv, URL = url, Dir = []\<rparr> = (w0, Inr r)"
    and b: "isDirEmpty w0 (Dir r) = Inr isEmpty"
  shows "\<exists>e. trace (fst (NewGitRepo w rv url)) = trace w @
                [(Dir r, if isEmpty then [''clone'', url, ''--quiet'', ''.'']
                         else [''pull'', ''origin'', ''master''], e)]"
proof -
  obtain w1 ures where u: "updateCache w0 r = (w1, ures)"
    by (cases "updateCache w0 r") auto
  from e u have n: "fst (NewGitRepo w rv url) = w1"
    by (simp add: NewGitRepo_def split: option.splits)
  from ensureCacheDir_ok [OF e] have t0: "trace w0 = trace w" and url: "URL r = url" by simp_all
  from updateCache_cases [OF u] b t0 url show ?thesis
    unfolding n by auto
qed

lemma NewGitRepo_again:
  assumes first: "NewGitRepo w rv url = (w1, Inr r1)"
  shows "(\<exists>e. trace (fst (NewGitRepo w1 rv2 url)) = trace w1 @
                [(Dir r1, [''pull'', ''origin'', ''master''], e)]
            \<and> (e = None \<longleftrightarrow> (\<exists>r2. snd (NewGitRepo w1 rv2 url) = Inr r2)))
       \<and> (\<exists>d. map_of (fs (fst (NewGitRepo w1 rv2 url))) (Dir r1) = Some d \<and> dotgit d \<noteq> None)"
proof -
  from NewGitRepo_steps [OF first] obtain w0 where
    e: "ensureCacheDir w \<lparr>Revision = rv, URL = url, Dir = []\<rparr> = (w0, Inr r1)"
    and u: "updateCache w0 r1 = (w1, None)"
    by (auto split: option.splits)
  from ensureCacheDir_ok [OF e] obtain pu where
    pu: "url_Parse url = Inr pu" and dir: "Dir r1 = cache_path (TempDir w) pu"
    and tmp0: "TempDir w0 = TempDir w"
    by auto
  from updateCache_cases [OF u] obtain d1 where
    d1: "map_of (fs w1) (Dir r1) = Some d1" "dotgit d1 \<noteq> None" and tmp1: "TempDir w1 = TempDir w0"
    by auto
  let ?r2 = "\<lparr>Revision = rv2, URL = url, Dir = Dir r1\<rparr>"
  have e2: "ensureCacheDir w1 \<lparr>Revision = rv2, URL = url, Dir = []\<rparr> = (w1, Inr ?r2)"
    using pu dir tmp0 tmp1 MkdirAll_existing [OF d1(1)]
    by (simp add: ensureCacheDir_def Let_def cacheDir_def)
  have b: "isDirEmpty w1 (Dir ?r2) = Inr False"
    using d1 by (simp add: isDirEmpty_clone)
  obtain w2 ures where u2: "updateCache w1 ?r2 = (w2, ures)"
    by (cases "updateCache w1 ?r2") auto
  from e2 u2 have n: "fst (NewGitRepo w1 rv2 url) = w2"
    and sn: "(\<exists>r2. snd (NewGitRepo w1 rv2 url) = Inr r2) \<longleftrightarrow> ures = None"
    by (auto simp: NewGitRepo_def split: option.splits)
  from updateCache_cases [OF u2] b obtain e where
    t: "trace w2 = trace w1 @ [(Dir r1, [''pull'', ''origin'', ''master''], e)]"
    and ok: "e = None \<longrightarrow> (\<exists>d'. map_of (fs w2) (Dir r1) = Some d' \<and> dotgit d' \<noteq> None)"
    and ko: "e \<noteq> None \<longrightarrow> fs w2 = fs w1"
    and link: "e = None \<longleftrightarrow> ures = None"
    by auto
  from ok ko d1 have "\<exists>d. map_of (fs w2) (Dir r1) = Some d \<and> dotgit d \<noteq> None"
    by (cases e) auto
  with t link sn show ?thesis unfolding n by blast
qed

lemma clone_runs_two:
  assumes first: "NewGitRepo w rv url = (w1, res1)"
    and second: "NewGitRepo w1 rv2 url = (w2, res2)"
  shows "clone_runs (drop (length (trace w)) (trace w2)) \<le> 1"
proof (cases res1)
  case (Inr r1)
  from NewGitRepo_again [of w rv url w1 r1 rv2] first Inr second obtain e2 where
    t2: "trace w2 = trace w1 @ [(Dir r1, [''pull'', ''origin'', ''master''], e2)]"
    by auto
  from NewGitRepo_trace [OF first] Inr obtain d args e where
    t1: "trace w1 = trace w @ [(d, args, e)]"
    by auto
  show ?thesis
    unfolding t2 t1 by (simp add: clone_runs_def)
next
  case (Inl err)
  from NewGitRepo_trace [OF first] Inl have
    t1: "trace w1 = trace w \<or> (\<exists>d args e. trace w1 = trace w @ [(d, args, Some e)])"
    by auto
  from NewGitRepo_trace [OF second] have
    t2: "trace w2 = trace w1 \<or> (\<exists>d args e. trace w2 = trace w1 @ [(d, args, e)])"
    by auto
  from t1 t2 show ?thesis
    by (elim disjE exE) (simp_all add: clone_runs_def)
qed

lemma dirname_length: "q \<noteq> [] \<Longrightarrow> length (dirname q) \<le> length q"
  by (cases q) (auto simp: dirname_def split: option.splits)

lemma path_chain_ancestors:
  "\<exists>qs. path_chain p = qs @ [p] \<and> (\<forall>q \<in> set qs. q \<noteq> [] \<and> length q < length p)"
  by (auto simp: path_chain_def)

lemma subdirs_empty_iff:
  "subdirs w p = [] \<longleftrightarrow> (\<forall>q \<in> fst ` set (fs w). q = p \<or> dirname q \<noteq> p)"
  by (auto simp: subdirs_def filter_empty_conv)

lemma put_keys: "fst ` set (put k v xs) \<subseteq> insert k (fst ` set xs)"
  by (auto simp: put_def)

lemma subdirs_put:
  assumes "subdirs w p = []" "k = p \<or> dirname k \<noteq> p"
  shows "subdirs (w\<lparr>fs := put k v (fs w)\<rparr>) p = []"
proof -
  have "q = p \<or> dirname q \<noteq> p" if "q \<in> fst ` set (put k v (fs w))" for q
  proof -
    from that put_keys [of k v "fs w"] have "q = k \<or> q \<in> fst ` set (fs w)" by blast
    then show ?thesis
    proof
      assume "q = k"
      with assms(2) show ?thesis by simp
    next
      assume "q \<in> fst ` set (fs w)"
      with assms(1) show ?thesis unfolding subdirs_empty_iff by blast
    qed
  qed
  then show ?thesis unfolding subdirs_empty_iff by simp
qed

lemma mkdirs_absent:
  assumes "mkdirs (qs @ [p]) w = Inr w'"
    and "\<forall>q \<in> set qs. q \<noteq> [] \<and> length q < length p"
    and "map_of (fs w) p = None" and "subdirs w p = []"
  shows "map_of (fs w') p = Some empty_directory \<and> subdirs w' p = []"
  using assms
proof (induction qs arbitrary: w)
  case Nil
  then have "w' = w\<lparr>fs := put p empty_directory (fs w)\<rparr>"
    by (simp split: if_splits)
  with Nil show ?case
    by (simp add: map_of_put subdirs_put)
next
  case (Cons q qs)
  from Cons.prems(2) have q: "q \<noteq> []" "length q < length p" by simp_all
  then have qp: "q \<noteq> p" by auto
  from q dirname_length [of q] have dq: "dirname q \<noteq> p" by auto
  show ?case
  proof (cases "map_of (fs w) q")
    case None
    with Cons.prems(1) have m: "mkdirs (qs @ [p]) (w\<lparr>fs := put q empty_directory (fs w)\<rparr>) = Inr w'"
      by (simp split: if_splits)
    show ?thesis
    proof (rule Cons.IH [OF m])
      show "\<forall>q \<in> set qs. q \<noteq> [] \<and> length q < length p" using Cons.prems(2) by simp
      show "map_of (fs (w\<lparr>fs := put q empty_directory (fs w)\<rparr>)) p = None"
        using Cons.prems(3) qp by (simp add: map_of_put)
      show "subdirs (w\<lparr>fs := put q empty_directory (fs w)\<rparr>) p = []"
        using Cons.prems(4) dq by (simp add: subdirs_put)
    qed
  next
    case (Some d)
    with Cons.prems(1) have m: "mkdirs (qs @ [p]) w = Inr w'"
      by (simp split: if_splits)
    show ?thesis
      by (rule Cons.IH [OF m]) (use Cons.prems in simp_all)
  qed
qed

lemma MkdirAll_absent:
  assumes "MkdirAll w p = Inr w'" "map_of (fs w) p = None" "subdirs w p = []"
  shows "isDirEmpty w' p = Inr True"
proof -
  from path_chain_ancestors [of p] obtain qs where
    c: "path_chain p = qs @ [p]" and a: "\<forall>q \<in> set qs. q \<noteq> [] \<and> length q < length p"
    by blast
  from assms(1,2) c have "mkdirs (qs @ [p]) w = Inr w'"
    by (simp add: MkdirAll_def)
  from mkdirs_absent [OF this a assms(2,3)] show ?thesis
    by (simp add: isDirEmpty_def empty_directory_def)
qed

lemma MkdirAll_present:
  assumes "MkdirAll w p = Inr w'" "isDirEmpty w p = Inr b"
  shows "w' = w"
  using assms by (auto simp: MkdirAll_def isDirEmpty_def split: option.splits)

lemma NewGitRepo_present:
  assumes e: "ensureCacheDir w \<lparr>Revision = rv, URL = url, Dir = []\<rparr> = (w0, Inr r)"
    and b: "isDirEmpty w (Dir r) = Inr isEmpty"
  shows "\<exists>e. trace (fst (NewGitRepo w rv url)) = trace w @
                [(Dir r, if isEmpty then [''clone'', url, ''--quiet'', ''.'']
                         else [''pull'', ''origin'', ''master''], e)]"
proof -
  from ensureCacheDir_ok [OF e] have "MkdirAll w (Dir r) = Inr w0" by auto
  from this b have "w0 = w" by (rule MkdirAll_present)
  with b have "isDirEmpty w0 (Dir r) = Inr isEmpty" by simp
  from NewGitRepo_first [OF e this] show ?thesis .
qed

lemma NewGitRepo_absent:
  assumes e: "ensureCacheDir w \<lparr>Revision = rv, URL = url, Dir = []\<rparr> = (w0, Inr r)"
    and a: "map_of (fs w) (Dir r) = None" "subdirs w (Dir r) = []"
  shows "\<exists>e. trace (fst (NewGitRepo w rv url)) = trace w @
                [(Dir r, [''clone'', url, ''--quiet'', ''.''], e)]"
proof -
  from ensureCacheDir_ok [OF e] have "MkdirAll w (Dir r) = Inr w0" by auto
  from MkdirAll_absent [OF this a] have "isDirEmpty w0 (Dir r) = Inr True" .
  from NewGitRepo_first [OF e this] show ?thesis by simp
qed

text \<open>
  Claim C7, as stated: on a cache directory that is not empty the acquisition fetches
  and fast-forwards the default branch, and the second acquisition of a URL leaves a
  valid mirror.  \<open>updateCache\<close> runs \<open>git pull origin master\<close>, whatever the default branch
  of the remote is: for a remote whose only branch is \<open>main\<close> the first acquisition
  clones, and the second runs the pull of \<open>master\<close>, fails and returns no mirror.
\<close>

theorem NewGitRepo_pulls_master:
  "head example_main_history = ''main''
   \<and> map_of (branches example_main_history) ''master'' = None
   \<and> snd (NewGitRepo example_main_world ''e5f6a7b8c9d0'' ''https://github.com/acme/gadget'')
       = Inr \<lparr>Revision = ''e5f6a7b8c9d0'', URL = ''https://github.com/acme/gadget'',
              Dir = ''/tmp/github_com/acme_gadget''\<rparr>
   \<and> snd (NewGitRepo
            (fst (NewGitRepo example_main_world ''e5f6a7b8c9d0'' ''https://github.com/acme/gadget''))
            ''e5f6a7b8c9d0'' ''https://github.com/acme/gadget'')
       = Inl (GitFailed [''pull'', ''origin'', ''master''] ''fatal: could not find remote ref''
                ''exit status 1'')"
  by code_simp

text \<open>
  Claim C7, amended.  \<open>NewGitRepo\<close> ensures the cache directory and then runs git exactly
  once in it: \<open>clone\<close> of the URL when the directory was absent (and, as an absent
  directory does, had no subdirectories) or was empty, and only \<open>pull origin master\<close>,
  with the branch name \<open>master\<close> fixed in the code, when it was not empty.  After a call
  that succeeded, a second call for the same URL, with any revision, runs only that
  pull, and the directory still holds a clone afterwards, whether the pull succeeds or
  not; the call itself succeeds only if the pull does.  Two calls in sequence for the
  same URL never contain two successful clones.
\<close>

theorem NewGitRepo_sync:
  "(ensureCacheDir w \<lparr>Revision = rv, URL = url, Dir = []\<rparr> = (w0, Inr r)
      \<and> map_of (fs w) (Dir r) = None \<and> subdirs w (Dir r) = [] \<longrightarrow>
      (\<exists>e. trace (fst (NewGitRepo w rv url))
             = trace w @ [(Dir r, [''clone'', url, ''--quiet'', ''.''], e)]))
   \<and> (ensureCacheDir w \<lparr>Revision = rv, URL = url, Dir = []\<rparr> = (w0, Inr r)
      \<and> isDirEmpty w (Dir r) = Inr True \<longrightarrow>
      (\<exists>e. trace (fst (NewGitRepo w rv url))
             = trace w @ [(Dir r, [''clone'', url, ''--quiet'', ''.''], e)]))
   \<and> (ensureCacheDir w \<lparr>Revision = rv, URL = url, Dir = []\<rparr> = (w0, Inr r)
      \<and> isDirEmpty w (Dir r) = Inr False \<longrightarrow>
      (\<exists>e. trace (fst (NewGitRepo w rv url))
             = trace w @ [(Dir r, [''pull'', ''origin'', ''master''], e)]))
   \<and> (NewGitRepo w rv url = (w1, Inr r1) \<longrightarrow>
      (\<exists>e. trace (fst (NewGitRepo w1 rv2 url))
             = trace w1 @ [(Dir r1, [''pull'', ''origin'', ''master''], e)]
           \<and> (e = None \<longleftrightarrow> (\<exists>r2. snd (NewGitRepo w1 rv2 url) = Inr r2)))
      \<and> (\<exists>d. map_of (fs (fst (NewGitRepo w1 rv2 url))) (Dir r1) = Some d \<and> dotgit d \<noteq> None))
   \<and> clone_runs (drop (length (trace w))
                  (trace (fst (NewGitRepo (fst (NewGitRepo w rv url)) rv2 url)))) \<le> 1"
proof (intro conjI impI)
  assume "ensureCacheDir w \<lparr>Revision = rv, URL = url, Dir = []\<rparr> = (w0, Inr r)
      \<and> map_of (fs w) (Dir r) = None \<and> subdirs w (Dir r) = []"
  then show "\<exists>e. trace (fst (NewGitRepo w rv url))
             = trace w @ [(Dir r, [''clone'', url, ''--quiet'', ''.''], e)]"
    using NewGitRepo_absent [of w rv url w0 r] by simp
next
  assume "ensureCacheDir w \<lparr>Revision = rv, URL = url, Dir = []\<rparr> = (w0, Inr r)
      \<and> isDirEmpty w (Dir r) = Inr True"
  then show "\<exists>e. trace (fst (NewGitRepo w rv url))
             = trace w @ [(Dir r, [''clone'', url, ''--quiet'', ''.''], e)]"
    using NewGitRepo_present [of w rv url w0 r True] by simp
next
  assume "ensureCacheDir w \<lparr>Revision = rv, URL = url, Dir = []\<rparr> = (w0, Inr r)
      \<and> isDirEmpty w (Dir r) = Inr False"
  then show "\<exists>e. trace (fst (NewGitRepo w rv url))
             = trace w @ [(Dir r, [''pull'', ''origin'', ''master''], e)]"
    using NewGitRepo_present [of w rv url w0 r False] by simp
next
  assume "NewGitRepo w rv url = (w1, Inr r1)"
  then show "\<exists>e. trace (fst (NewGitRepo w1 rv2 url))
             = trace w1 @ [(Dir r1, [''pull'', ''origin'', ''master''], e)]
           \<and> (e = None \<longleftrightarrow> (\<exists>r2. snd (NewGitRepo w1 rv2 url) = Inr r2))"
    using NewGitRepo_again [of w rv url w1 r1 rv2] by blast
next
  assume "NewGitRepo w rv url = (w1, Inr r1)"
  then show "\<exists>d. map_of (fs (fst (NewGitRepo w1 rv2 url))) (Dir r1) = Some d \<and> dotgit d \<noteq> None"
    using NewGitRepo_again by blast
next
  show "clone_runs (drop (length (trace w))
                  (trace (fst (NewGitRepo (fst (NewGitRepo w rv url)) rv2 url)))) \<le> 1"
    using clone_runs_two [of w rv url "fst (NewGitRepo w rv url)" "snd (NewGitRepo w rv url)" rv2
        "fst (NewGitRepo (fst (NewGitRepo w rv url)) rv2 url)"
        "snd (NewGitRepo (fst (NewGitRepo w rv url)) rv2 url)"]
    by simp
qed

theorem NewGitRepo_sync_witness:
  "(\<exists>e. trace (fst (NewGitRepo example_world ''v1.0'' ''https://github.com/acme/widget''))
          = [(''/tmp/github_com/acme_widget'',
              [''clone'', ''https://github.com/acme/widget'', ''--quiet'', ''.''], e)])
   \<and> (\<exists>e. trace (fst (NewGitRepo
                          (example_world\<lparr>fs := [(''/tmp/github_com/acme_widget'', empty_directory),
                                                 (''/tmp/github_com'', empty_directory),
                                                 (''/tmp'', empty_directory)]\<rparr>)
                          ''v1.0'' ''https://github.com/acme/widget''))
          = [(''/tmp/github_com/acme_widget'',
              [''clone'', ''https://github.com/acme/widget'', ''--quiet'', ''.''], e)])
   \<and> (\<exists>e. trace (fst (NewGitRepo example_cloned ''v1.0'' ''https://github.com/acme/widget''))
          = [(''/tmp/github_com/acme_widget'', [''pull'', ''origin'', ''master''], e)])
   \<and> (\<exists>e. trace (fst (NewGitRepo
                          (fst (NewGitRepo example_world ''v1.0'' ''https://github.com/acme/widget''))
                          ''c3d4e5f6a7b8'' ''https://github.com/acme/widget''))
          = trace (fst (NewGitRepo example_world ''v1.0'' ''https://github.com/acme/widget''))
            @ [(''/tmp/github_com/acme_widget'', [''pull'', ''origin'', ''master''], e)])
   \<and> (\<exists>d. map_of (fs (fst (NewGitRepo
                          (fst (NewGitRepo example_world ''v1.0'' ''https://github.com/acme/widget''))
                          ''c3d4e5f6a7b8'' ''https://github.com/acme/widget'')))
              ''/tmp/github_com/acme_widget'' = Some d \<and> dotgit d \<noteq> None)"
proof -
  let ?U = "''https://github.com/acme/widget''"
  let ?D = "''/tmp/github_com/acme_widget''"
  let ?r = "\<lparr>Revision = ''v1.0'', URL = ?U, Dir = ?D\<rparr>"
  let ?w0 = "example_world\<lparr>fs := [(?D, empty_directory), (''/tmp/github_com'', empty_directory),
                                    (''/tmp'', empty_directory)]\<rparr>"
  have e1: "ensureCacheDir example_world \<lparr>Revision = ''v1.0'', URL = ?U, Dir = []\<rparr> = (?w0, Inr ?r)"
    by code_simp
  have a1: "map_of (fs example_world) (Dir ?r) = None" and a2: "subdirs example_world (Dir ?r) = []"
    by code_simp+
  have e0: "ensureCacheDir ?w0 \<lparr>Revision = ''v1.0'', URL = ?U, Dir = []\<rparr> = (?w0, Inr ?r)"
    by code_simp
  have b0: "isDirEmpty ?w0 (Dir ?r) = Inr True"
    by code_simp
  have e2: "ensureCacheDir example_cloned \<lparr>Revision = ''v1.0'', URL = ?U, Dir = []\<rparr>
            = (example_cloned, Inr ?r)"
    by code_simp
  have b2: "isDirEmpty example_cloned (Dir ?r) = Inr False"
    by code_simp
  have "snd (NewGitRepo example_world ''v1.0'' ?U) = Inr ?r"
    by code_simp
  then have n: "NewGitRepo example_world ''v1.0'' ?U
                = (fst (NewGitRepo example_world ''v1.0'' ?U), Inr ?r)"
    by (metis prod.collapse)
  have t1: "trace example_world = []" and t2: "trace example_cloned = []"
    by (simp_all add: example_world_def example_cloned_def)
  have again:
    "(\<exists>e. trace (fst (NewGitRepo (fst (NewGitRepo example_world ''v1.0'' ?U)) ''c3d4e5f6a7b8'' ?U))
           = trace (fst (NewGitRepo example_world ''v1.0'' ?U))
             @ [(Dir ?r, [''pull'', ''origin'', ''master''], e)])
     \<and> (\<exists>d. map_of (fs (fst (NewGitRepo (fst (NewGitRepo example_world ''v1.0'' ?U))
                                  ''c3d4e5f6a7b8'' ?U))) (Dir ?r) = Some d \<and> dotgit d \<noteq> None)"
    using NewGitRepo_sync [where w = example_world and rv = "''v1.0''" and url = ?U
        and ?w1.0 = "fst (NewGitRepo example_world ''v1.0'' ?U)" and ?r1.0 = ?r
        and ?rv2.0 = "''c3d4e5f6a7b8''"] n
    by blast
  show ?thesis
    using NewGitRepo_sync [where w = example_world and rv = "''v1.0''" and url = ?U
        and ?w0.0 = ?w0 and r = ?r]
      NewGitRepo_sync [where w = ?w0 and rv = "''v1.0''" and url = ?U
        and ?w0.0 = ?w0 and r = ?r]
      NewGitRepo_sync [where w = example_cloned and rv = "''v1.0''" and url = ?U
        and ?w0.0 = example_cloned and r = ?r]
      e1 a1 a2 e0 b0 e2 b2 again t1 t2
    by simp
qed

end
